theory Spec2Isabelle
  imports Complex_Main "HOL-Library.Sublist" "HOL-Library.AList"
begin

section \<open>Strings as the program uses them\<close>

text \<open>
  A JavaScript string is modelled as a \<open>string\<close> whose characters are the code units
  below 256 (the Latin-1 range); strings with other code units are outside the model.
  \<open>toLowerCase\<close> lowers \<open>A\<close>..\<open>Z\<close> and the Latin-1 capitals (192..222 without the
  multiplication sign 215), one character for one character, as \<open>String.prototype.toLowerCase\<close>
  does on these code units.
\<close>

definition toLowerCase_char :: "char \<Rightarrow> char" where
  "toLowerCase_char c =
     (let n = (of_char c :: nat)
      in if (65 \<le> n \<and> n \<le> 90) \<or> (192 \<le> n \<and> n \<le> 222 \<and> n \<noteq> 215)
         then char_of (n + 32) else c)"

definition toLowerCase :: "string \<Rightarrow> string" where
  "toLowerCase s = map toLowerCase_char s"

text \<open>\<open>s.includes(sub)\<close> (the name \<open>includes\<close> is reserved in Isabelle): \<open>sub\<close> occurs in \<open>s\<close> as a contiguous block.\<close>

fun includes_str :: "string \<Rightarrow> string \<Rightarrow> bool" where
  "includes_str [] sub = (sub = [])"
| "includes_str (c # cs) sub = (prefix sub (c # cs) \<or> includes_str cs sub)"

section \<open>Objects used as dictionaries\<close>

text \<open>
  The program looks names up in plain objects: \<open>obj[name]\<close>. Such a read finds an own
  property first and an inherited member next, and every plain object inherits the members
  of \<open>Object.prototype\<close>: the names below, all of them functions or objects. The one write
  the program can make to \<open>Object.prototype\<close> is \<open>isActive = true\<close> (through
  \<open>setActiveConnection\<close> on the name \<open>__proto__\<close>); whether it has happened in the running
  process is the flag \<open>polluted\<close>.

  What a read yields, as far as the program distinguishes it: nothing, a string, number or
  truth value (with its truthiness), an object or function that is no entry of the
  dictionary, or an own entry.
\<close>

definition inherited_names :: "string list" where
  "inherited_names = [''constructor'', ''__defineGetter__'', ''__defineSetter__'',
     ''hasOwnProperty'', ''__lookupGetter__'', ''__lookupSetter__'', ''isPrototypeOf'',
     ''propertyIsEnumerable'', ''toString'', ''valueOf'', ''__proto__'', ''toLocaleString'']"

datatype 'a member = Undefined | Primitive bool | Object_value | Own 'a

text \<open>\<open>!value\<close>\<close>

definition falsy_member :: "'a member \<Rightarrow> bool" where
  "falsy_member m =
     (case m of Undefined \<Rightarrow> True | Primitive b \<Rightarrow> \<not> b | Object_value \<Rightarrow> False | Own _ \<Rightarrow> False)"

definition object_prototype_member :: "bool \<Rightarrow> string \<Rightarrow> 'a member" where
  "object_prototype_member polluted k =
     (if k \<in> set inherited_names then Object_value
      else if k = ''isActive'' \<and> polluted then Primitive True
      else Undefined)"

section \<open>The demonstration query route: \<open>generateMockSQL\<close> and \<open>generateMockResults\<close>\<close>

text \<open>
  A cell of a row is a string or a number; a row (a JavaScript object literal) is the list
  of its keys and values in the order written. \<open>execution_time\<close> is a decimal literal and is
  kept as the rational number it denotes.
\<close>

datatype cell = Str string | Num int

type_synonym row = "(string \<times> cell) list"

datatype chart_kind = bar | line | pie

record chart_data =
  chart_type :: chart_kind
  data :: "row list"
  xAxis :: string
  yAxis :: string

record query_results =
  table_data :: "row list"
  chart :: chart_data
  columns :: "string list"
  row_count :: nat
  execution_time :: rat

definition generateMockSQL :: "string \<Rightarrow> string \<Rightarrow> string" where
  "generateMockSQL query sector =
     (let lowerQuery = toLowerCase query
      in if includes_str lowerQuery ''salary'' \<or> includes_str lowerQuery ''employee'' then
           ''SELECT department, AVG(salary) as avg_salary, COUNT(*) as employee_count FROM employees GROUP BY department ORDER BY avg_salary DESC LIMIT 10;''
         else if includes_str lowerQuery ''transaction'' \<or> includes_str lowerQuery ''volume'' then
           ''SELECT DATE(transaction_date) as date, SUM(amount) as total_amount, COUNT(*) as transaction_count FROM transactions WHERE transaction_date >= NOW() - INTERVAL '' @ [CHR 0x27] @ ''30 days'' @ [CHR 0x27] @ '' GROUP BY DATE(transaction_date) ORDER BY date;''
         else if includes_str lowerQuery ''department'' \<or> includes_str lowerQuery ''count'' then
           ''SELECT department, COUNT(*) as employee_count FROM employees GROUP BY department ORDER BY employee_count DESC;''
         else
           ''SELECT * FROM employees LIMIT 10;'')"

definition salary_results :: query_results where
  "salary_results = \<lparr>
     table_data = [
       [(''department'', Str ''Engineering''), (''avg_salary'', Num 95000), (''employee_count'', Num 25)],
       [(''department'', Str ''Sales''), (''avg_salary'', Num 75000), (''employee_count'', Num 18)],
       [(''department'', Str ''Marketing''), (''avg_salary'', Num 68000), (''employee_count'', Num 12)],
       [(''department'', Str ''HR''), (''avg_salary'', Num 62000), (''employee_count'', Num 8)],
       [(''department'', Str ''Finance''), (''avg_salary'', Num 78000), (''employee_count'', Num 10)]],
     chart = \<lparr>
       chart_type = bar,
       data = [
         [(''department'', Str ''Engineering''), (''avg_salary'', Num 95000)],
         [(''department'', Str ''Sales''), (''avg_salary'', Num 75000)],
         [(''department'', Str ''Marketing''), (''avg_salary'', Num 68000)],
         [(''department'', Str ''HR''), (''avg_salary'', Num 62000)],
         [(''department'', Str ''Finance''), (''avg_salary'', Num 78000)]],
       xAxis = ''department'',
       yAxis = ''avg_salary''\<rparr>,
     columns = [''department'', ''avg_salary'', ''employee_count''],
     row_count = 5,
     execution_time = 15 / 100\<rparr>"

definition transaction_results :: query_results where
  "transaction_results = \<lparr>
     table_data = [
       [(''date'', Str ''2024-01-15''), (''total_amount'', Num 125000), (''transaction_count'', Num 45)],
       [(''date'', Str ''2024-01-16''), (''total_amount'', Num 138000), (''transaction_count'', Num 52)],
       [(''date'', Str ''2024-01-17''), (''total_amount'', Num 142000), (''transaction_count'', Num 48)],
       [(''date'', Str ''2024-01-18''), (''total_amount'', Num 159000), (''transaction_count'', Num 61)],
       [(''date'', Str ''2024-01-19''), (''total_amount'', Num 134000), (''transaction_count'', Num 43)]],
     chart = \<lparr>
       chart_type = line,
       data = [
         [(''date'', Str ''2024-01-15''), (''total_amount'', Num 125000)],
         [(''date'', Str ''2024-01-16''), (''total_amount'', Num 138000)],
         [(''date'', Str ''2024-01-17''), (''total_amount'', Num 142000)],
         [(''date'', Str ''2024-01-18''), (''total_amount'', Num 159000)],
         [(''date'', Str ''2024-01-19''), (''total_amount'', Num 134000)]],
       xAxis = ''date'',
       yAxis = ''total_amount''\<rparr>,
     columns = [''date'', ''total_amount'', ''transaction_count''],
     row_count = 5,
     execution_time = 12 / 100\<rparr>"

definition department_results :: query_results where
  "department_results = \<lparr>
     table_data = [
       [(''department'', Str ''Engineering''), (''employee_count'', Num 25)],
       [(''department'', Str ''Sales''), (''employee_count'', Num 18)],
       [(''department'', Str ''Marketing''), (''employee_count'', Num 12)],
       [(''department'', Str ''Finance''), (''employee_count'', Num 10)],
       [(''department'', Str ''HR''), (''employee_count'', Num 8)]],
     chart = \<lparr>
       chart_type = pie,
       data = [
         [(''department'', Str ''Engineering''), (''employee_count'', Num 25)],
         [(''department'', Str ''Sales''), (''employee_count'', Num 18)],
         [(''department'', Str ''Marketing''), (''employee_count'', Num 12)],
         [(''department'', Str ''Finance''), (''employee_count'', Num 10)],
         [(''department'', Str ''HR''), (''employee_count'', Num 8)]],
       xAxis = ''department'',
       yAxis = ''employee_count''\<rparr>,
     columns = [''department'', ''employee_count''],
     row_count = 5,
     execution_time = 8 / 100\<rparr>"

definition default_results :: query_results where
  "default_results = \<lparr>
     table_data = [
       [(''id'', Num 1), (''name'', Str ''John Doe''), (''department'', Str ''Engineering''), (''salary'', Num 95000)],
       [(''id'', Num 2), (''name'', Str ''Jane Smith''), (''department'', Str ''Sales''), (''salary'', Num 75000)],
       [(''id'', Num 3), (''name'', Str ''Bob Johnson''), (''department'', Str ''Marketing''), (''salary'', Num 68000)]],
     chart = \<lparr>
       chart_type = bar,
       data = [
         [(''name'', Str ''John Doe''), (''salary'', Num 95000)],
         [(''name'', Str ''Jane Smith''), (''salary'', Num 75000)],
         [(''name'', Str ''Bob Johnson''), (''salary'', Num 68000)]],
       xAxis = ''name'',
       yAxis = ''salary''\<rparr>,
     columns = [''id'', ''name'', ''department'', ''salary''],
     row_count = 3,
     execution_time = 5 / 100\<rparr>"

definition generateMockResults :: "string \<Rightarrow> string \<Rightarrow> query_results" where
  "generateMockResults query sector =
     (let lowerQuery = toLowerCase query
      in if includes_str lowerQuery ''salary'' \<or> includes_str lowerQuery ''employee'' then salary_results
         else if includes_str lowerQuery ''transaction'' \<or> includes_str lowerQuery ''volume'' then transaction_results
         else if includes_str lowerQuery ''department'' \<or> includes_str lowerQuery ''count'' then department_results
         else default_results)"

section \<open>Query translation: \<open>generateSQLFromQuery\<close> and \<open>generateFallbackSQL\<close>\<close>

subsection \<open>Schemas\<close>

text \<open>
  A schema is the object \<open>{tables: {name: {columns: {name: {type, nullable, default}}}}}\<close>.
  An object used as a dictionary is the list of its entries in the order \<open>Object.keys\<close>
  enumerates them. \<open>schema.tables || {}\<close> and \<open>.columns || {}\<close> guard against an absent
  member, so both members are optional here.
\<close>

record column_info =
  col_type :: string
  nullable :: bool
  col_default :: "string option"

record table_info =
  tbl_columns :: "(string \<times> column_info) list option"

record schema =
  tables :: "(string \<times> table_info) list option"
  extractedAt :: string

datatype error = Error string | TypeError

text \<open>\<open>Object.keys(o || {})\<close>\<close>

definition keys_or_empty :: "(string \<times> 'a) list option \<Rightarrow> string list" where
  "keys_or_empty obj = (case obj of None \<Rightarrow> [] | Some kvs \<Rightarrow> map fst kvs)"

text \<open>\<open>xs.join(sep)\<close>\<close>

fun join :: "string \<Rightarrow> string list \<Rightarrow> string" where
  "join sep [] = []"
| "join sep [x] = x"
| "join sep (x # y # ys) = x @ sep @ join sep (y # ys)"

subsection \<open>The fallback tier\<close>

definition generateFallbackSQL :: "string \<Rightarrow> schema \<Rightarrow> error + string" where
  "generateFallbackSQL query schema =
     (let lowerQuery = toLowerCase query;
          tbls = keys_or_empty (tables schema)
      in if length tbls = 0 then Inl (Error ''No tables available for querying'')
         else if includes_str lowerQuery ''total'' \<and> includes_str lowerQuery ''loan''
                 \<and> ''loans'' \<in> set tbls then
           Inr ''SELECT SUM(loan_amount) as total_loan_amount, COUNT(*) as total_loans FROM loans;''
         else if includes_str lowerQuery ''customer'' \<and> includes_str lowerQuery ''count''
                 \<and> ''customers'' \<in> set tbls then
           Inr ''SELECT COUNT(*) as customer_count FROM customers;''
         else if (includes_str lowerQuery ''payment'' \<or> includes_str lowerQuery ''transaction'')
                 \<and> ''payments'' \<in> set tbls then
           Inr ''SELECT SUM(amount_paid) as total_payments, COUNT(*) as payment_count FROM payments;''
         else if includes_str lowerQuery ''loan'' \<and> includes_str lowerQuery ''type''
                 \<and> ''loans'' \<in> set tbls then
           Inr ''SELECT loan_type, COUNT(*) as loan_count, AVG(loan_amount) as avg_amount FROM loans GROUP BY loan_type ORDER BY loan_count DESC;''
         else
           (let firstTable = hd tbls
            in case map_of (case tables schema of None \<Rightarrow> [] | Some ts \<Rightarrow> ts) firstTable of
                 None \<Rightarrow> Inl TypeError
               | Some t \<Rightarrow>
                   (let cols = keys_or_empty (tbl_columns t);
                        limitedColumns = join '', '' (take 5 cols)
                    in Inr (''SELECT '' @ limitedColumns @ '' FROM '' @ firstTable @ '' LIMIT 10;''))))"

text \<open>Some rule fires: its keywords occur in the question and its table is in the schema.\<close>

definition rule_fires :: "string \<Rightarrow> schema \<Rightarrow> bool" where
  "rule_fires query schema =
     (let lowerQuery = toLowerCase query;
          tbls = keys_or_empty (tables schema)
      in (includes_str lowerQuery ''total'' \<and> includes_str lowerQuery ''loan''
            \<and> ''loans'' \<in> set tbls)
         \<or> (includes_str lowerQuery ''customer'' \<and> includes_str lowerQuery ''count''
            \<and> ''customers'' \<in> set tbls)
         \<or> ((includes_str lowerQuery ''payment'' \<or> includes_str lowerQuery ''transaction'')
            \<and> ''payments'' \<in> set tbls)
         \<or> (includes_str lowerQuery ''loan'' \<and> includes_str lowerQuery ''type''
            \<and> ''loans'' \<in> set tbls))"

subsection \<open>Cleaning the text of the primary tier\<close>

text \<open>
  White space as \<open>trim\<close> and the regular expression class \<open>\s\<close> see it, on code units
  below 256: tab, line feed, vertical tab, form feed, carriage return, space, no-break space.
\<close>

definition is_space :: "char \<Rightarrow> bool" where
  "is_space c \<longleftrightarrow> (of_char c :: nat) \<in> {9, 10, 11, 12, 13, 32, 160}"

definition trim :: "string \<Rightarrow> string" where
  "trim s = rev (dropWhile is_space (rev (dropWhile is_space s)))"

text \<open>
  Matching under the flag \<open>i\<close> compares canonical (upper case) characters. Only \<open>a\<close>..\<open>z\<close>
  are canonicalised to an ASCII letter, and the patterns below contain ASCII letters only.
\<close>

definition canonicalize :: "char \<Rightarrow> char" where
  "canonicalize c =
     (let n = (of_char c :: nat)
      in if 97 \<le> n \<and> n \<le> 122 then char_of (n - 32) else c)"

fun ci_prefix :: "string \<Rightarrow> string \<Rightarrow> bool" where
  "ci_prefix [] s = True"
| "ci_prefix (p # ps) [] = False"
| "ci_prefix (p # ps) (c # cs) = (canonicalize p = canonicalize c \<and> ci_prefix ps cs)"

definition fence :: string where
  "fence = [CHR 0x60, CHR 0x60, CHR 0x60]"

text \<open>
  The expression \<open>/```(?:sql)?\s*(SELECT[\s\S]*?)\s*```/i\<close>, piece by piece.
  \<open>lazy_body\<close> is \<open>[\s\S]*?\<close> followed by \<open>\s*```\<close>: the shortest run of characters after
  which white space and a fence follow (a fence character is not white space, so \<open>\s*\<close> can
  only stop at the end of the white space).
\<close>

fun lazy_body :: "string \<Rightarrow> string option" where
  "lazy_body [] = None"
| "lazy_body (c # cs) =
     (if prefix fence (dropWhile is_space (c # cs)) then Some []
      else map_option ((#) c) (lazy_body cs))"

text \<open>\<open>\s*(SELECT[\s\S]*?)\s*```\<close>: the value is group 1.\<close>

definition after_lang :: "string \<Rightarrow> string option" where
  "after_lang s =
     (let r = dropWhile is_space s
      in if ci_prefix ''SELECT'' r
         then map_option (\<lambda>b. take 6 r @ b) (lazy_body (drop 6 r))
         else None)"

text \<open>The whole expression at one start position: with \<open>sql\<close> first, without it next.\<close>

definition fence_at :: "string \<Rightarrow> string option" where
  "fence_at s =
     (if prefix fence s then
        (let r = drop 3 s
         in case (if ci_prefix ''sql'' r then after_lang (drop 3 r) else None) of
              Some g \<Rightarrow> Some g
            | None \<Rightarrow> after_lang r)
      else None)"

text \<open>\<open>s.match(...)\<close>: the leftmost start position that matches; the value is group 1.\<close>

fun fence_match :: "string \<Rightarrow> string option" where
  "fence_match [] = None"
| "fence_match (c # cs) =
     (case fence_at (c # cs) of Some g \<Rightarrow> Some g | None \<Rightarrow> fence_match cs)"

text \<open>
  \<open>s.replace(/^[^S]*SELECT/i, 'SELECT')\<close>. Under the flag \<open>i\<close> the class \<open>[^S]\<close> excludes
  \<open>s\<close> as well as \<open>S\<close>; the keyword starts with that letter, so the only place where the
  class can stop is the first such letter of the string.
\<close>

definition replace_leading :: "string \<Rightarrow> string" where
  "replace_leading s =
     (let r = dropWhile (\<lambda>c. canonicalize c \<noteq> CHR ''S'') s
      in if ci_prefix ''SELECT'' r then ''SELECT'' @ drop 6 r else s)"

subsection \<open>The translator\<close>

text \<open>
  The text generation service is outside the program: its outcome is an argument. The
  call throws (\<open>AiThrows\<close>), or returns a response whose \<open>text\<close> is absent or a string.
\<close>

datatype ai_outcome = AiThrows | AiText "string option"

definition generateSQLFromQuery ::
  "ai_outcome \<Rightarrow> string \<Rightarrow> schema \<Rightarrow> string \<Rightarrow> error + string" where
  "generateSQLFromQuery ai naturalLanguageQuery schema sector =
     (case ai of
        AiThrows \<Rightarrow> generateFallbackSQL naturalLanguageQuery schema
      | AiText text \<Rightarrow>
          (let rawSQL = (case text of None \<Rightarrow> [] | Some t \<Rightarrow> t);
               cleanSQL = trim rawSQL;
               cleanSQL = (if includes_str cleanSQL fence
                           then (case fence_match cleanSQL of
                                   Some g \<Rightarrow> trim g
                                 | None \<Rightarrow> cleanSQL)
                           else cleanSQL);
               cleanSQL = replace_leading cleanSQL
           in Inr cleanSQL))"

section \<open>KPI suggestions: \<open>generateKPISuggestions\<close> and \<open>getFallbackSuggestions\<close>\<close>

text \<open>
  A suggestion parsed from the service's JSON text may lack any member, so every member is
  optional. A member is truthy when it is present and not the empty string.
\<close>

record KPISuggestion =
  kpi_id :: "string option"
  name :: "string option"
  description :: "string option"
  query_template :: "string option"
  category :: "string option"

definition truthy :: "string option \<Rightarrow> bool" where
  "truthy v \<longleftrightarrow> (case v of None \<Rightarrow> False | Some t \<Rightarrow> t \<noteq> [])"

definition suggestion_valid :: "KPISuggestion \<Rightarrow> bool" where
  "suggestion_valid suggestion \<longleftrightarrow>
     truthy (kpi_id suggestion) \<and> truthy (name suggestion) \<and> truthy (description suggestion)
     \<and> truthy (query_template suggestion) \<and> truthy (category suggestion)"

definition suggestion :: "string \<Rightarrow> string \<Rightarrow> string \<Rightarrow> string \<Rightarrow> string \<Rightarrow> KPISuggestion" where
  "suggestion i n d q c =
     \<lparr>kpi_id = Some i, name = Some n, description = Some d, query_template = Some q, category = Some c\<rparr>"

definition fallback_bank :: "KPISuggestion list" where
  "fallback_bank = [
     suggestion ''loan_approval_rate'' ''Loan Approval Rate''
       ''Percentage of approved loans versus total applications''
       ''What is the loan approval rate for the last 6 months?'' ''Operational'',
     suggestion ''account_growth'' ''Account Growth''
       ''Rate of new account openings over time''
       ''Show me the trend in new account openings'' ''Growth'',
     suggestion ''transaction_volume'' ''Transaction Volume''
       ''Total transaction amounts processed''
       ''What is the daily transaction volume?'' ''Operational'']"

definition fallback_finance :: "KPISuggestion list" where
  "fallback_finance = [
     suggestion ''revenue_growth'' ''Revenue Growth''
       ''Revenue growth rate over time periods''
       ''Show me quarterly revenue growth'' ''Financial'',
     suggestion ''profit_margins'' ''Profit Margins''
       ''Profit margin analysis by product or service''
       ''What are the profit margins by product category?'' ''Financial'',
     suggestion ''client_portfolio_value'' ''Client Portfolio Value''
       ''Total value of client portfolios''
       ''Show me client portfolio value distributions'' ''Financial'']"

definition fallback_ithr :: "KPISuggestion list" where
  "fallback_ithr = [
     suggestion ''employee_turnover'' ''Employee Turnover Rate''
       ''Employee turnover rate by department''
       ''What is the employee turnover rate by department?'' ''HR Metrics'',
     suggestion ''hiring_metrics'' ''Hiring Efficiency''
       ''Time to hire and hiring success rates''
       ''Show me average time to hire by position level'' ''HR Metrics'',
     suggestion ''performance_ratings'' ''Performance Ratings''
       ''Employee performance rating distributions''
       ''What are the performance rating trends?'' ''Performance'']"

text \<open>
  The table \<open>fallbackSuggestions\<close>, an object literal with three own keys, and the read
  \<open>fallbackSuggestions[sector] || fallbackSuggestions.finance\<close>: an own list, else an
  inherited member unless it is falsy, else the finance list. The value returned is an own
  list or whatever member the read found.
\<close>

definition fallbackSuggestions :: "(string \<times> KPISuggestion list) list" where
  "fallbackSuggestions =
     [(''bank'', fallback_bank), (''finance'', fallback_finance), (''ithr'', fallback_ithr)]"

definition getFallbackSuggestions :: "bool \<Rightarrow> string \<Rightarrow> KPISuggestion list member" where
  "getFallbackSuggestions polluted sector =
     (let found = (case map_of fallbackSuggestions sector of
                     Some suggestions \<Rightarrow> Own suggestions
                   | None \<Rightarrow> object_prototype_member polluted sector)
      in if falsy_member found then Own fallback_finance else found)"

text \<open>
  The outcome of the service call and of \<open>JSON.parse\<close> is an argument: an exception anywhere
  in the \<open>try\<close> block (the call, the parse, a parsed value that is no array), a response
  without text, or a parsed array. An element of the array is \<open>null\<close> or an object (a
  number, string or truth value behaves as an object without members); reading a member of
  \<open>null\<close> throws inside the \<open>filter\<close> callback.
\<close>

datatype json_item = JNull | JObject KPISuggestion

datatype kpi_outcome = KpiThrows | KpiNoText | KpiArray "json_item list"

text \<open>\<open>suggestions.filter(...)\<close>; \<open>None\<close> when the callback throws.\<close>

fun filter_valid :: "json_item list \<Rightarrow> KPISuggestion list option" where
  "filter_valid [] = Some []"
| "filter_valid (JNull # xs) = None"
| "filter_valid (JObject x # xs) =
     (case filter_valid xs of
        None \<Rightarrow> None
      | Some ys \<Rightarrow> Some (if suggestion_valid x then x # ys else ys))"

definition generateKPISuggestions ::
  "bool \<Rightarrow> kpi_outcome \<Rightarrow> schema \<Rightarrow> string \<Rightarrow> KPISuggestion list member" where
  "generateKPISuggestions polluted outcome schema sector =
     (case outcome of
        KpiThrows \<Rightarrow> getFallbackSuggestions polluted sector
      | KpiNoText \<Rightarrow> getFallbackSuggestions polluted sector
      | KpiArray suggestions \<Rightarrow>
          (case filter_valid suggestions of
             None \<Rightarrow> getFallbackSuggestions polluted sector
           | Some kept \<Rightarrow> Own (take 8 kept)))"

section \<open>The connection registry: \<open>DatabaseConfigService\<close>\<close>

text \<open>
  \<open>connections\<close> is an object used as a dictionary. Its own entries are the list of its
  records in enumeration order, written with \<open>AList.update\<close> (an existing key keeps its place,
  a new key goes last; array indices, which are enumerated first, are not told apart) and
  \<open>AList.delete\<close>. The object it inherits from is \<open>Object.prototype\<close> until a record is
  assigned to the name \<open>__proto__\<close>: that assignment stores no entry and makes the record
  the object \<open>connections\<close> inherits from (\<open>prototype\<close>). Neither \<open>prototype\<close> nor the flag
  \<open>object_polluted\<close> (the \<open>polluted\<close> of the process) is written to the configuration
  file, and both are as at the start in a new process.

  The state is the configuration in memory, the content of the configuration file, and
  these two; a write that fails leaves the file as it was. Whether the file can be written,
  what the liveness probe answers, what the catalog returns and the current time are
  arguments of the operations.
\<close>

record connectionParams =
  host :: string
  port :: int
  database :: string
  username :: string
  password :: string

record DatabaseConnection = connectionParams +
  conn_type :: string
  isActive :: bool
  conn_schema :: "schema option"
  lastConnected :: "string option"

record DatabaseConfig =
  currentConnection :: "string option"
  connections :: "(string \<times> DatabaseConnection) list"

record service =
  config :: DatabaseConfig
  stored :: "DatabaseConfig option"
  prototype :: "DatabaseConnection option"
  object_polluted :: bool

text \<open>A member of a record, read by its name in the program; \<open>None\<close> for other names.\<close>

definition record_member :: "DatabaseConnection \<Rightarrow> string \<Rightarrow> DatabaseConnection member option" where
  "record_member r k =
     (if k = ''host'' then Some (Primitive (host r \<noteq> []))
      else if k = ''port'' then Some (Primitive (port r \<noteq> 0))
      else if k = ''database'' then Some (Primitive (database r \<noteq> []))
      else if k = ''username'' then Some (Primitive (username r \<noteq> []))
      else if k = ''password'' then Some (Primitive (password r \<noteq> []))
      else if k = ''type'' then Some (Primitive (conn_type r \<noteq> []))
      else if k = ''isActive'' then Some (Primitive (isActive r))
      else if k = ''schema'' then
        Some (case conn_schema r of None \<Rightarrow> Primitive False | Some _ \<Rightarrow> Object_value)
      else if k = ''lastConnected'' then
        Some (case lastConnected r of None \<Rightarrow> Primitive False | Some t \<Rightarrow> Primitive (t \<noteq> []))
      else None)"

text \<open>\<open>this.config.connections[k]\<close>: an own record, a member of \<open>prototype\<close>, a member of
  \<open>Object.prototype\<close>, in this order. (The name \<open>__proto__\<close> reads the object inherited from,
  an object either way.)\<close>

definition connections_member :: "service \<Rightarrow> string \<Rightarrow> DatabaseConnection member" where
  "connections_member s k =
     (case map_of (connections (config s)) k of
        Some r \<Rightarrow> Own r
      | None \<Rightarrow>
          (case (case prototype s of None \<Rightarrow> None | Some p \<Rightarrow> record_member p k) of
             Some m \<Rightarrow> m
           | None \<Rightarrow> object_prototype_member (object_polluted s) k))"

fun error_message :: "error \<Rightarrow> string" where
  "error_message (Error m) = m"
| "error_message TypeError = ''Cannot set properties of undefined''"

definition saveConfig :: "bool \<Rightarrow> service \<Rightarrow> error + service" where
  "saveConfig writable s =
     (if writable then Inr (s\<lparr>stored := Some (config s)\<rparr>)
      else Inl (Error ''Could not save database configuration''))"

definition default_config :: DatabaseConfig where
  "default_config = \<lparr>
     currentConnection = None,
     connections = [(''default'', \<lparr>
       host = ''localhost'', port = 5432, database = ''postgres'', username = ''postgres'',
       password = [], conn_type = ''postgresql'', isActive = False, conn_schema = None,
       lastConnected = None\<rparr>)]\<rparr>"

text \<open>
  \<open>loadConfig\<close>, in a new process: the content of the file when it can be read and parsed,
  the default configuration (saved at once) otherwise.
\<close>

definition loadConfig :: "DatabaseConfig option \<Rightarrow> bool \<Rightarrow> error + service" where
  "loadConfig file writable =
     (case file of
        Some c \<Rightarrow> Inr \<lparr>config = c, stored = Some c, prototype = None, object_polluted = False\<rparr>
      | None \<Rightarrow>
          saveConfig writable
            \<lparr>config = default_config, stored = None, prototype = None, object_polluted = False\<rparr>)"

text \<open>\<open>extractSchema\<close> returns the catalog's schema or throws its one error.\<close>

definition extractSchema :: "schema option \<Rightarrow> error + schema" where
  "extractSchema catalog =
     (case catalog of
        None \<Rightarrow> Inl (Error ''Failed to extract database schema'')
      | Some sch \<Rightarrow> Inr sch)"

text \<open>\<open>Object.keys(connections).forEach(key => connections[key].isActive = false)\<close>\<close>

definition deactivate_all :: "(string \<times> DatabaseConnection) list \<Rightarrow> (string \<times> DatabaseConnection) list" where
  "deactivate_all conns = map (\<lambda>(k, r). (k, r\<lparr>isActive := False\<rparr>)) conns"

record add_result =
  success :: bool
  result_schema :: "schema option"
  error_text :: "string option"

definition add_failed :: "string \<Rightarrow> add_result" where
  "add_failed m = \<lparr>success = False, result_schema = None, error_text = Some m\<rparr>"

text \<open>
  \<open>addConnection\<close>. \<open>probe\<close> is what \<open>testConnection\<close> does (it returns a truth value, or
  throws), \<open>catalog\<close> what the database's catalog holds, \<open>now\<close> the time stamp. The assignment
  \<open>connections[connectionId] = record\<close> stores an entry, except for the name \<open>__proto__\<close>
  when it is no own key.
\<close>

definition addConnection ::
  "(error + bool) \<Rightarrow> schema option \<Rightarrow> string \<Rightarrow> bool \<Rightarrow> string \<Rightarrow> connectionParams \<Rightarrow> service
     \<Rightarrow> add_result \<times> service" where
  "addConnection probe catalog now writable connectionId connectionParams s =
     (case probe of
        Inl e \<Rightarrow> (add_failed (error_message e), s)
      | Inr isValid \<Rightarrow>
          if \<not> isValid then
            (add_failed ''Failed to connect to database with provided credentials'', s)
          else
            (case extractSchema catalog of
               Inl e \<Rightarrow> (add_failed (error_message e), s)
             | Inr sch \<Rightarrow>
                 (let conns = deactivate_all (connections (config s));
                      new = \<lparr>
                        host = host connectionParams, port = port connectionParams,
                        database = database connectionParams,
                        username = username connectionParams,
                        password = password connectionParams,
                        conn_type = ''postgresql'', isActive = True,
                        conn_schema = Some sch, lastConnected = Some now\<rparr>;
                      s = (if connectionId = ''__proto__'' \<and> map_of conns connectionId = None
                           then s\<lparr>config := (config s)\<lparr>connections := conns\<rparr>,
                                   prototype := Some new\<rparr>
                           else s\<lparr>config := (config s)\<lparr>connections :=
                                     AList.update connectionId new conns\<rparr>\<rparr>);
                      s = s\<lparr>config := (config s)\<lparr>currentConnection := Some connectionId\<rparr>\<rparr>
                  in case saveConfig writable s of
                       Inl e \<Rightarrow> (add_failed (error_message e), s)
                     | Inr s \<Rightarrow>
                         (\<lparr>success = True, result_schema = Some sch, error_text = None\<rparr>, s))))"

text \<open>
  \<open>setActiveConnection\<close>: a truth value or an exception. The guard reads
  \<open>connections[connectionId]\<close>, inherited members included. After the records have been
  deactivated, \<open>connections[connectionId].isActive = true\<close> sets the flag of an own record;
  on a string, number or truth value it throws (the class body is strict code); on another
  object it changes no record, and through the name \<open>__proto__\<close> it writes to the object
  inherited from.
\<close>

definition setActiveConnection :: "bool \<Rightarrow> string \<Rightarrow> service \<Rightarrow> (error + bool) \<times> service" where
  "setActiveConnection writable connectionId s =
     (let found = connections_member s connectionId
      in if falsy_member found then (Inr False, s)
         else
           (let s = s\<lparr>config := (config s)\<lparr>connections :=
                        deactivate_all (connections (config s))\<rparr>\<rparr>
            in case found of
                 Primitive _ \<Rightarrow> (Inl TypeError, s)
               | _ \<Rightarrow>
                   (let s = (case found of
                               Own _ \<Rightarrow>
                                 s\<lparr>config := (config s)\<lparr>connections :=
                                      AList.map_entry connectionId (\<lambda>r. r\<lparr>isActive := True\<rparr>)
                                        (connections (config s))\<rparr>\<rparr>
                             | _ \<Rightarrow>
                                 if connectionId = ''__proto__'' then
                                   (case prototype s of
                                      None \<Rightarrow> s\<lparr>object_polluted := True\<rparr>
                                    | Some p \<Rightarrow> s\<lparr>prototype := Some (p\<lparr>isActive := True\<rparr>)\<rparr>)
                                 else s);
                        s = s\<lparr>config := (config s)\<lparr>currentConnection := Some connectionId\<rparr>\<rparr>
                    in case saveConfig writable s of
                         Inl e \<Rightarrow> (Inl e, s)
                       | Inr s \<Rightarrow> (Inr True, s))))"

text \<open>
  \<open>removeConnection\<close>. The guard reads \<open>connections[connectionId]\<close>, inherited members
  included; \<open>delete\<close> removes an own entry only. Writing \<open>connections.default.isActive\<close>
  throws when there is no record \<open>default\<close> (no object inherits a member of that name); the
  deletion has happened by then.
\<close>

definition removeConnection :: "bool \<Rightarrow> string \<Rightarrow> service \<Rightarrow> (error + bool) \<times> service" where
  "removeConnection writable connectionId s =
     (if falsy_member (connections_member s connectionId) \<or> connectionId = ''default'' then
        (Inr False, s)
      else
        (let conns = AList.delete connectionId (connections (config s));
             s = s\<lparr>config := (config s)\<lparr>connections := conns\<rparr>\<rparr>
         in if currentConnection (config s) = Some connectionId then
              (let s = s\<lparr>config := (config s)\<lparr>currentConnection := Some ''default''\<rparr>\<rparr>
               in case map_of conns ''default'' of
                    None \<Rightarrow> (Inl TypeError, s)
                  | Some _ \<Rightarrow>
                      (let conns = AList.map_entry ''default'' (\<lambda>r. r\<lparr>isActive := True\<rparr>) conns;
                           s = s\<lparr>config := (config s)\<lparr>connections := conns\<rparr>\<rparr>
                       in case saveConfig writable s of
                            Inl e \<Rightarrow> (Inl e, s)
                          | Inr s \<Rightarrow> (Inr True, s)))
            else
              (case saveConfig writable s of
                 Inl e \<Rightarrow> (Inl e, s)
               | Inr s \<Rightarrow> (Inr True, s))))"

text \<open>
  The states the service can be in: it starts without a configuration file, it restarts (in
  a new process) from the file it wrote, and it runs the three operations, whatever the
  outside answers.
\<close>

inductive reachable :: "service \<Rightarrow> bool" where
  start: "loadConfig None writable = Inr s \<Longrightarrow> reachable s"
| restart: "reachable s \<Longrightarrow> stored s = Some c \<Longrightarrow> loadConfig (Some c) writable = Inr s' \<Longrightarrow> reachable s'"
| add: "reachable s \<Longrightarrow> reachable (snd (addConnection probe catalog now writable connectionId connectionParams s))"
| activate: "reachable s \<Longrightarrow> reachable (snd (setActiveConnection writable connectionId s))"
| remove: "reachable s \<Longrightarrow> reachable (snd (removeConnection writable connectionId s))"

text \<open>The invariant of the registry: at most one active record, and a record \<open>default\<close>.\<close>

definition active_count :: "DatabaseConfig \<Rightarrow> nat" where
  "active_count cfg = length (filter (\<lambda>(k, r). isActive r) (connections cfg))"

definition registry_inv :: "DatabaseConfig \<Rightarrow> bool" where
  "registry_inv cfg \<longleftrightarrow>
     active_count cfg \<le> 1 \<and> ''default'' \<in> set (map fst (connections cfg))"

text \<open>
  What the operations keep in fact, and what the invariant follows from: the keys are
  distinct, \<open>default\<close> is one of them, and an active record is the current connection.
\<close>

definition registry_consistent :: "DatabaseConfig \<Rightarrow> bool" where
  "registry_consistent cfg \<longleftrightarrow>
     distinct (map fst (connections cfg)) \<and>
     ''default'' \<in> set (map fst (connections cfg)) \<and>
     list_all (\<lambda>(k, r). isActive r \<longrightarrow> currentConnection cfg = Some k) (connections cfg)"

text \<open>Consistency of the service: of the configuration in memory and of the one in the file.\<close>

definition service_consistent :: "service \<Rightarrow> bool" where
  "service_consistent s \<longleftrightarrow>
     registry_consistent (config s) \<and>
     (case stored s of None \<Rightarrow> True | Some c \<Rightarrow> registry_consistent c)"

section \<open>Concrete inputs\<close>

text \<open>
  The schema that the route \<open>/api/connect-db\<close> stores for a session (with a time stamp
  added), the state of the service after its first start with a writable configuration file,
  one set of connection parameters, and the state after a connection \<open>analytics\<close> has been
  added with them.
\<close>

definition demo_schema :: schema where
  "demo_schema = \<lparr>
     tables = Some [
       (''employees'', \<lparr>tbl_columns = Some [
          (''id'', \<lparr>col_type = ''integer'', nullable = False, col_default = None\<rparr>),
          (''name'', \<lparr>col_type = ''varchar'', nullable = False, col_default = None\<rparr>),
          (''department'', \<lparr>col_type = ''varchar'', nullable = True, col_default = None\<rparr>),
          (''salary'', \<lparr>col_type = ''numeric'', nullable = True, col_default = None\<rparr>),
          (''hire_date'', \<lparr>col_type = ''date'', nullable = True, col_default = None\<rparr>)]\<rparr>),
       (''departments'', \<lparr>tbl_columns = Some [
          (''id'', \<lparr>col_type = ''integer'', nullable = False, col_default = None\<rparr>),
          (''name'', \<lparr>col_type = ''varchar'', nullable = False, col_default = None\<rparr>),
          (''budget'', \<lparr>col_type = ''numeric'', nullable = True, col_default = None\<rparr>)]\<rparr>),
       (''transactions'', \<lparr>tbl_columns = Some [
          (''id'', \<lparr>col_type = ''integer'', nullable = False, col_default = None\<rparr>),
          (''amount'', \<lparr>col_type = ''numeric'', nullable = False, col_default = None\<rparr>),
          (''transaction_date'', \<lparr>col_type = ''timestamp'', nullable = False, col_default = None\<rparr>),
          (''account_id'', \<lparr>col_type = ''integer'', nullable = False, col_default = None\<rparr>),
          (''type'', \<lparr>col_type = ''varchar'', nullable = False, col_default = None\<rparr>)]\<rparr>)],
     extractedAt = ''2024-01-15T00:00:00.000Z''\<rparr>"

definition fresh_service :: service where
  "fresh_service =
     \<lparr>config = default_config, stored = Some default_config, prototype = None, object_polluted = False\<rparr>"

definition demo_params :: connectionParams where
  "demo_params = \<lparr>host = ''db.example.com'', port = 5432, database = ''analytics'',
     username = ''reader'', password = ''secret''\<rparr>"

definition analytics_service :: service where
  "analytics_service =
     snd (addConnection (Inr True) (Some demo_schema) ''2024-01-15T00:00:01.000Z'' True
            ''analytics'' demo_params fresh_service)"

section \<open>Facts about the string operations\<close>

lemma includes_str_iff: "includes_str s sub \<longleftrightarrow> (\<exists>ps ss. s = ps @ sub @ ss)"
proof (induction s)
  case Nil
  then show ?case by auto
next
  case (Cons c cs)
  show ?case
  proof
    assume "includes_str (c # cs) sub"
    then consider "prefix sub (c # cs)" | "includes_str cs sub" by auto
    then show "\<exists>ps ss. c # cs = ps @ sub @ ss"
    proof cases
      case 1
      then obtain ss where "c # cs = sub @ ss" by (auto simp: prefix_def)
      then have "c # cs = [] @ sub @ ss" by simp
      then show ?thesis by blast
    next
      case 2
      with Cons.IH obtain ps ss where "cs = ps @ sub @ ss" by blast
      then have "c # cs = (c # ps) @ sub @ ss" by simp
      then show ?thesis by blast
    qed
  next
    assume "\<exists>ps ss. c # cs = ps @ sub @ ss"
    then obtain ps ss where e: "c # cs = ps @ sub @ ss" by blast
    show "includes_str (c # cs) sub"
    proof (cases ps)
      case Nil
      with e have "prefix sub (c # cs)" by (simp add: prefix_def)
      then show ?thesis by simp
    next
      case (Cons p ps')
      with e have "cs = ps' @ sub @ ss" by simp
      with Cons.IH have "includes_str cs sub" by blast
      then show ?thesis by simp
    qed
  qed
qed

lemma toLowerCase_append: "toLowerCase (a @ b) = toLowerCase a @ toLowerCase b"
  by (simp add: toLowerCase_def)

lemma includes_str_toLowerCase:
  assumes "includes_str q sub" and "toLowerCase sub = sub"
  shows "includes_str (toLowerCase q) sub"
proof -
  from assms(1) obtain ps ss where "q = ps @ sub @ ss" by (auto simp: includes_str_iff)
  then have "toLowerCase q = toLowerCase ps @ sub @ toLowerCase ss"
    by (simp add: toLowerCase_append assms(2))
  then show ?thesis unfolding includes_str_iff by blast
qed

lemma toLowerCase_salary: "toLowerCase ''salary'' = ''salary''"
  by (simp add: toLowerCase_def toLowerCase_char_def)

section \<open>Facts about the fallback translator\<close>

lemma first_table_found:
  assumes "keys_or_empty (tables schema) \<noteq> []"
  obtains t ts where "tables schema = Some ((hd (keys_or_empty (tables schema)), t) # ts)"
proof -
  from assms obtain kvs where k: "tables schema = Some kvs" "kvs \<noteq> []"
    by (cases "tables schema") (auto simp: keys_or_empty_def)
  then obtain n t ts where "kvs = (n, t) # ts" by (cases kvs) auto
  with k have "tables schema = Some ((hd (keys_or_empty (tables schema)), t) # ts)"
    by (simp add: keys_or_empty_def)
  then show ?thesis by (rule that)
qed

lemma fallback_starts_with_select:
  assumes "generateFallbackSQL query schema = Inr q"
  shows "prefix ''SELECT '' q"
proof (cases "keys_or_empty (tables schema) = []")
  case True
  with assms show ?thesis by (simp add: generateFallbackSQL_def Let_def)
next
  case False
  then obtain t ts where
    s: "tables schema = Some ((hd (keys_or_empty (tables schema)), t) # ts)"
    by (rule first_table_found)
  define firstTable where "firstTable = hd (keys_or_empty (tables schema))"
  have s': "tables schema = Some ((firstTable, t) # ts)"
    using s by (simp add: firstTable_def)
  define r1 where "r1 \<longleftrightarrow> includes_str (toLowerCase query) ''total'' \<and> includes_str (toLowerCase query) ''loan''
                 \<and> ''loans'' \<in> set (keys_or_empty (tables schema))"
  define r2 where "r2 \<longleftrightarrow> includes_str (toLowerCase query) ''customer'' \<and> includes_str (toLowerCase query) ''count''
                 \<and> ''customers'' \<in> set (keys_or_empty (tables schema))"
  define r3 where "r3 \<longleftrightarrow> (includes_str (toLowerCase query) ''payment'' \<or> includes_str (toLowerCase query) ''transaction'')
                 \<and> ''payments'' \<in> set (keys_or_empty (tables schema))"
  define r4 where "r4 \<longleftrightarrow> includes_str (toLowerCase query) ''loan'' \<and> includes_str (toLowerCase query) ''type''
                 \<and> ''loans'' \<in> set (keys_or_empty (tables schema))"
  define dflt where "dflt = ''SELECT '' @ join '', '' (take 5 (keys_or_empty (tbl_columns t))) @ '' FROM '' @ firstTable @ '' LIMIT 10;''"
  have e: "(length (keys_or_empty (tables schema)) = 0) = False"
    using False by simp
  have m: "map_of (case tables schema of None \<Rightarrow> [] | Some ts \<Rightarrow> ts) (hd (keys_or_empty (tables schema))) = Some t"
    by (simp add: s' keys_or_empty_def)
  have u: "generateFallbackSQL query schema =
     (if r1 then Inr ''SELECT SUM(loan_amount) as total_loan_amount, COUNT(*) as total_loans FROM loans;''
      else if r2 then Inr ''SELECT COUNT(*) as customer_count FROM customers;''
      else if r3 then Inr ''SELECT SUM(amount_paid) as total_payments, COUNT(*) as payment_count FROM payments;''
      else if r4 then Inr ''SELECT loan_type, COUNT(*) as loan_count, AVG(loan_amount) as avg_amount FROM loans GROUP BY loan_type ORDER BY loan_count DESC;''
      else Inr dflt)"
    unfolding generateFallbackSQL_def Let_def r1_def r2_def r3_def r4_def dflt_def firstTable_def
    by (simp only: e m if_False option.case)
  consider r1 | "\<not> r1" r2 | "\<not> r1" "\<not> r2" r3 | "\<not> r1" "\<not> r2" "\<not> r3" r4
    | "\<not> r1" "\<not> r2" "\<not> r3" "\<not> r4"
    by blast
  then show ?thesis
  proof cases
    case 1
    with u assms have "q = ''SELECT SUM(loan_amount) as total_loan_amount, COUNT(*) as total_loans FROM loans;''"
      by simp
    then show ?thesis by simp
  next
    case 2
    with u assms have "q = ''SELECT COUNT(*) as customer_count FROM customers;''"
      by simp
    then show ?thesis by simp
  next
    case 3
    with u assms have "q = ''SELECT SUM(amount_paid) as total_payments, COUNT(*) as payment_count FROM payments;''"
      by simp
    then show ?thesis by simp
  next
    case 4
    with u assms have "q = ''SELECT loan_type, COUNT(*) as loan_count, AVG(loan_amount) as avg_amount FROM loans GROUP BY loan_type ORDER BY loan_count DESC;''"
      by simp
    then show ?thesis by simp
  next
    case 5
    with u assms have "q = dflt" by simp
    then show ?thesis by (simp add: dflt_def)
  qed
qed

section \<open>Facts about the suggestions\<close>

lemma fallback_lists:
  "length fallback_bank = 3" "length fallback_finance = 3" "length fallback_ithr = 3"
  "list_all suggestion_valid fallback_bank" "list_all suggestion_valid fallback_finance"
  "list_all suggestion_valid fallback_ithr"
  "distinct (map kpi_id fallback_bank)" "distinct (map kpi_id fallback_finance)"
  "distinct (map kpi_id fallback_ithr)"
  by (simp_all add: fallback_bank_def fallback_finance_def
      fallback_ithr_def suggestion_def suggestion_valid_def truthy_def)

lemma getFallbackSuggestions_plain:
  assumes "sector \<notin> set inherited_names" and "\<not> (sector = ''isActive'' \<and> polluted)"
  shows "getFallbackSuggestions polluted sector =
           Own (case map_of fallbackSuggestions sector of
                  Some suggestions \<Rightarrow> suggestions | None \<Rightarrow> fallback_finance)"
  using assms
  by (auto simp: getFallbackSuggestions_def object_prototype_member_def falsy_member_def Let_def
      split: option.splits)

lemma fallback_table_facts:
  "length (case map_of fallbackSuggestions sector of
             Some suggestions \<Rightarrow> suggestions | None \<Rightarrow> fallback_finance) = 3"
  "list_all suggestion_valid (case map_of fallbackSuggestions sector of
             Some suggestions \<Rightarrow> suggestions | None \<Rightarrow> fallback_finance)"
  "distinct (map kpi_id (case map_of fallbackSuggestions sector of
             Some suggestions \<Rightarrow> suggestions | None \<Rightarrow> fallback_finance))"
  by (simp_all add: fallbackSuggestions_def fallback_lists)

lemma filter_valid_all: "filter_valid items = Some kept \<Longrightarrow> list_all suggestion_valid kept"
proof (induction items arbitrary: kept)
  case Nil
  then show ?case by simp
next
  case (Cons x xs)
  then show ?case
    by (cases x) (auto split: option.splits if_splits)
qed

lemma filter_valid_objects: "filter_valid (map JObject xs) = Some (filter suggestion_valid xs)"
  by (induction xs) auto

lemma filter_valid_null: "JNull \<in> set items \<Longrightarrow> filter_valid items = None"
proof (induction items)
  case Nil
  then show ?case by simp
next
  case (Cons x xs)
  then show ?case by (cases x) auto
qed

section \<open>Facts about the registry operations\<close>

lemma deactivate_all_keys: "map fst (deactivate_all conns) = map fst conns"
  by (induction conns) (auto simp: deactivate_all_def)

lemma deactivate_all_dom: "fst ` set (deactivate_all conns) = fst ` set conns"
  using deactivate_all_keys [of conns, THEN arg_cong [where f = set]] by simp

lemma delete_dom: "fst ` set (AList.delete k al) = fst ` set al - {k}"
  by (induction al) auto

lemma deactivate_all_inactive: "(k, r) \<in> set (deactivate_all conns) \<Longrightarrow> \<not> isActive r"
  by (auto simp: deactivate_all_def)

lemma set_update_subset: "set (AList.update k v al) \<subseteq> insert (k, v) (set al)"
  by (induction al) auto

lemma map_entry_keys: "map fst (AList.map_entry k f al) = map fst al"
  by (induction al) auto

lemma set_map_entry: "(k', r) \<in> set (AList.map_entry k f al) \<Longrightarrow> (k', r) \<in> set al \<or> k' = k"
  by (induction al) (auto split: if_splits)

lemma set_delete_subset: "(k', r) \<in> set (AList.delete k al) \<Longrightarrow> (k', r) \<in> set al \<and> k' \<noteq> k"
  by (auto simp: AList.delete_eq)

lemma consistent_imp_inv:
  assumes "registry_consistent cfg"
  shows "registry_inv cfg"
proof -
  have "distinct (map fst xs) \<Longrightarrow> (\<forall>(k, r) \<in> set xs. isActive r \<longrightarrow> c = Some k)
          \<Longrightarrow> length (filter (\<lambda>(k, r). isActive r) xs) \<le> 1" for xs :: "(string \<times> DatabaseConnection) list" and c
  proof (induction xs)
    case Nil
    then show ?case by simp
  next
    case (Cons x xs)
    obtain k r where x: "x = (k, r)" by (cases x)
    show ?case
    proof (cases "isActive r")
      case False
      with Cons x show ?thesis by simp
    next
      case True
      with Cons.prems x have c: "c = Some k" by simp
      have "filter (\<lambda>(k, r). isActive r) xs = []"
      proof (rule ccontr)
        assume "filter (\<lambda>(k, r). isActive r) xs \<noteq> []"
        then obtain y where y: "y \<in> set xs" "(\<lambda>(k, r). isActive r) y"
          by (auto simp: filter_empty_conv)
        obtain k' r' where y': "y = (k', r')" by (cases y)
        with y Cons.prems(2) have "c = Some k'" by auto
        with c have "k' = k" by simp
        with y y' have "k \<in> set (map fst xs)" by force
        with Cons.prems(1) x show False by simp
      qed
      with x True show ?thesis by simp
    qed
  qed
  with assms show ?thesis
    by (auto simp: registry_consistent_def registry_inv_def active_count_def list_all_iff)
qed


lemma add_config_consistent:
  assumes "registry_consistent cfg" and "isActive r"
  shows "registry_consistent (cfg\<lparr>connections :=
           AList.update k r (deactivate_all (connections cfg)),
           currentConnection := Some k\<rparr>)"
proof -
  have d: "distinct (map fst (AList.update k r (deactivate_all (connections cfg))))"
    using assms(1) by (simp add: registry_consistent_def distinct_update deactivate_all_keys)
  have p: "''default'' \<in> set (map fst (AList.update k r (deactivate_all (connections cfg))))"
    using assms(1) by (simp add: registry_consistent_def dom_update deactivate_all_dom)
  have a: "isActive r' \<longrightarrow> k' = k"
    if "(k', r') \<in> set (AList.update k r (deactivate_all (connections cfg)))" for k' r'
    using that set_update_subset [of k r "deactivate_all (connections cfg)"]
      deactivate_all_inactive by auto
  from d p a show ?thesis
    by (auto simp: registry_consistent_def list_all_iff)
qed

lemma deactivated_consistent:
  assumes "registry_consistent cfg"
  shows "registry_consistent (cfg\<lparr>connections := deactivate_all (connections cfg)\<rparr>)"
    and "registry_consistent (cfg\<lparr>connections := deactivate_all (connections cfg),
           currentConnection := c\<rparr>)"
proof -
  have d: "distinct (map fst (deactivate_all (connections cfg)))"
    using assms by (simp add: registry_consistent_def deactivate_all_keys)
  have p: "''default'' \<in> set (map fst (deactivate_all (connections cfg)))"
    using assms by (simp add: registry_consistent_def deactivate_all_dom)
  have a: "\<not> isActive r'" if "(k', r') \<in> set (deactivate_all (connections cfg))" for k' r'
    using that by (rule deactivate_all_inactive)
  from d p a show "registry_consistent (cfg\<lparr>connections := deactivate_all (connections cfg)\<rparr>)"
    by (auto simp: registry_consistent_def list_all_iff)
  from d p a show "registry_consistent (cfg\<lparr>connections := deactivate_all (connections cfg),
           currentConnection := c\<rparr>)"
    by (auto simp: registry_consistent_def list_all_iff)
qed

lemma activate_config_consistent:
  assumes "registry_consistent cfg"
  shows "registry_consistent (cfg\<lparr>connections :=
           AList.map_entry k (\<lambda>r. r\<lparr>isActive := True\<rparr>) (deactivate_all (connections cfg)),
           currentConnection := Some k\<rparr>)"
proof -
  have d: "distinct (map fst (AList.map_entry k (\<lambda>r. r\<lparr>isActive := True\<rparr>) (deactivate_all (connections cfg))))"
    using assms by (simp add: registry_consistent_def map_entry_keys deactivate_all_keys)
  have p: "''default'' \<in> set (map fst (AList.map_entry k (\<lambda>r. r\<lparr>isActive := True\<rparr>) (deactivate_all (connections cfg))))"
    using assms by (simp add: registry_consistent_def dom_map_entry deactivate_all_dom)
  have a: "isActive r' \<longrightarrow> k' = k"
    if "(k', r') \<in> set (AList.map_entry k (\<lambda>r. r\<lparr>isActive := True\<rparr>) (deactivate_all (connections cfg)))" for k' r'
    using set_map_entry [OF that] deactivate_all_inactive by auto
  from d p a show ?thesis
    by (auto simp: registry_consistent_def list_all_iff)
qed

lemma remove_other_consistent:
  assumes "registry_consistent cfg" and "k \<noteq> ''default''" and "currentConnection cfg \<noteq> Some k"
  shows "registry_consistent (cfg\<lparr>connections := AList.delete k (connections cfg)\<rparr>)"
proof -
  have d: "distinct (map fst (AList.delete k (connections cfg)))"
    using assms(1) by (simp add: registry_consistent_def distinct_delete)
  have p: "''default'' \<in> set (map fst (AList.delete k (connections cfg)))"
    using assms(1,2) by (simp add: registry_consistent_def delete_dom)
  have a: "isActive r' \<longrightarrow> currentConnection cfg = Some k'"
    if "(k', r') \<in> set (AList.delete k (connections cfg))" for k' r'
    using set_delete_subset [OF that] assms(1)
    by (auto simp: registry_consistent_def list_all_iff)
  from d p a show ?thesis
    by (auto simp: registry_consistent_def list_all_iff)
qed

lemma remove_current_consistent:
  assumes "registry_consistent cfg" and "k \<noteq> ''default''" and "currentConnection cfg = Some k"
  shows "registry_consistent (cfg\<lparr>currentConnection := Some ''default'',
           connections := AList.map_entry ''default'' (\<lambda>r. r\<lparr>isActive := True\<rparr>)
                           (AList.delete k (connections cfg))\<rparr>)"
    and "map_of (AList.delete k (connections cfg)) ''default'' \<noteq> None"
proof -
  have p1: "''default'' \<in> set (map fst (AList.delete k (connections cfg)))"
    using assms(1,2) by (simp add: registry_consistent_def delete_dom)
  then show p0: "map_of (AList.delete k (connections cfg)) ''default'' \<noteq> None"
    by (simp add: map_of_eq_None_iff)
  have d: "distinct (map fst (AList.map_entry ''default'' (\<lambda>r. r\<lparr>isActive := True\<rparr>)
                           (AList.delete k (connections cfg))))"
    using assms(1) by (simp add: registry_consistent_def map_entry_keys distinct_delete)
  have p: "''default'' \<in> set (map fst (AList.map_entry ''default'' (\<lambda>r. r\<lparr>isActive := True\<rparr>)
                           (AList.delete k (connections cfg))))"
    using p1 by (simp add: dom_map_entry)
  have i: "\<not> isActive r'" if "(k', r') \<in> set (AList.delete k (connections cfg))" for k' r'
  proof
    assume "isActive r'"
    with set_delete_subset [OF that] assms(1) have "currentConnection cfg = Some k'" "k' \<noteq> k"
      by (auto simp: registry_consistent_def list_all_iff)
    with assms(3) show False by simp
  qed
  have a: "isActive r' \<longrightarrow> k' = ''default''"
    if "(k', r') \<in> set (AList.map_entry ''default'' (\<lambda>r. r\<lparr>isActive := True\<rparr>)
                           (AList.delete k (connections cfg)))" for k' r'
    using set_map_entry [OF that] i by auto
  from d p a show "registry_consistent (cfg\<lparr>currentConnection := Some ''default'',
           connections := AList.map_entry ''default'' (\<lambda>r. r\<lparr>isActive := True\<rparr>)
                           (AList.delete k (connections cfg))\<rparr>)"
    by (auto simp: registry_consistent_def list_all_iff)
qed


lemma service_consistent_unsaved:
  assumes "service_consistent s" and "registry_consistent c"
  shows "service_consistent (s\<lparr>config := c\<rparr>)"
    and "service_consistent (s\<lparr>config := c, prototype := p\<rparr>)"
    and "service_consistent (s\<lparr>config := c, object_polluted := q\<rparr>)"
  using assms by (simp_all add: service_consistent_def)

lemma service_consistent_saved:
  assumes "registry_consistent c"
  shows "service_consistent (s\<lparr>config := c, stored := Some c\<rparr>)"
    and "service_consistent (s\<lparr>config := c, prototype := p, stored := Some c\<rparr>)"
    and "service_consistent (s\<lparr>config := c, object_polluted := q, stored := Some c\<rparr>)"
  using assms by (simp_all add: service_consistent_def)

lemma addConnection_consistent:
  assumes "service_consistent s"
  shows "service_consistent (snd (addConnection probe catalog now writable connectionId connectionParams s))"
proof -
  from assms have rc: "registry_consistent (config s)" by (simp add: service_consistent_def)
  have c1: "registry_consistent ((config s)\<lparr>connections :=
           AList.update connectionId \<lparr>host = host connectionParams, port = port connectionParams,
             database = database connectionParams, username = username connectionParams,
             password = password connectionParams, conn_type = ''postgresql'', isActive = True,
             conn_schema = Some sch, lastConnected = Some now\<rparr> (deactivate_all (connections (config s))),
           currentConnection := Some connectionId\<rparr>)" for sch
    using rc by (rule add_config_consistent) simp
  note c2 = deactivated_consistent(2) [OF rc]
  show ?thesis
    using assms c1 c2
    by (auto simp: addConnection_def extractSchema_def saveConfig_def service_consistent_def Let_def
        split: sum.splits option.splits if_splits)
qed

lemma setActiveConnection_consistent:
  assumes "service_consistent s"
  shows "service_consistent (snd (setActiveConnection writable connectionId s))"
proof -
  from assms have rc: "registry_consistent (config s)" by (simp add: service_consistent_def)
  note c1 = activate_config_consistent [OF rc]
  note c2 = deactivated_consistent [OF rc]
  show ?thesis
  proof (cases "connections_member s connectionId")
    case Undefined
    with assms show ?thesis by (simp add: setActiveConnection_def falsy_member_def)
  next
    case (Primitive b)
    with assms c2 show ?thesis
      by (cases b) (simp_all add: setActiveConnection_def falsy_member_def service_consistent_def Let_def)
  next
    case Object_value
    with assms c2 show ?thesis
      by (auto simp: setActiveConnection_def falsy_member_def saveConfig_def
          service_consistent_def Let_def split: option.splits)
  next
    case (Own r)
    with assms c1 show ?thesis
      by (auto simp: setActiveConnection_def falsy_member_def saveConfig_def
          service_consistent_def Let_def split: option.splits)
  qed
qed

lemma removeConnection_consistent:
  assumes "service_consistent s"
  shows "service_consistent (snd (removeConnection writable connectionId s))"
proof (cases "falsy_member (connections_member s connectionId) \<or> connectionId = ''default''")
  case True
  with assms show ?thesis by (auto simp: removeConnection_def)
next
  case False
  then have nd: "connectionId \<noteq> ''default''" by simp
  from assms have rc: "registry_consistent (config s)" by (simp add: service_consistent_def)
  show ?thesis
  proof (cases "currentConnection (config s) = Some connectionId")
    case True
    note c = remove_current_consistent [OF rc nd True]
    show ?thesis
      using assms False True c
      by (auto simp: removeConnection_def saveConfig_def service_consistent_def Let_def
          split: option.splits)
  next
    case cur: False
    note c = remove_other_consistent [OF rc nd cur]
    show ?thesis
      using assms False cur c
      by (auto simp: removeConnection_def saveConfig_def service_consistent_def Let_def)
  qed
qed

lemma default_config_consistent: "registry_consistent default_config"
  by (simp add: registry_consistent_def default_config_def)

lemma reachable_consistent: "reachable s \<Longrightarrow> service_consistent s"
proof (induction rule: reachable.induct)
  case (start writable s)
  then show ?case
    using default_config_consistent
    by (auto simp: loadConfig_def saveConfig_def service_consistent_def split: if_splits)
next
  case (restart s c writable s')
  then show ?case
    by (auto simp: loadConfig_def service_consistent_def)
next
  case (add s probe catalog now writable connectionId connectionParams)
  then show ?case by (simp add: addConnection_consistent)
next
  case (activate s writable connectionId)
  then show ?case by (simp add: setActiveConnection_consistent)
next
  case (remove s writable connectionId)
  then show ?case by (simp add: removeConnection_consistent)
qed

lemma reachable_inv: "reachable s \<Longrightarrow> registry_inv (config s)"
  by (drule reachable_consistent) (simp add: service_consistent_def consistent_imp_inv)


lemma fresh_service_reachable: "reachable fresh_service"
proof -
  have "loadConfig None True = Inr fresh_service"
    by (simp add: loadConfig_def saveConfig_def fresh_service_def)
  then show ?thesis by (rule reachable.start)
qed

lemma analytics_service_config:
  "config analytics_service = \<lparr>currentConnection = Some ''analytics'',
     connections = [
       (''default'', \<lparr>host = ''localhost'', port = 5432, database = ''postgres'',
          username = ''postgres'', password = [], conn_type = ''postgresql'', isActive = False,
          conn_schema = None, lastConnected = None\<rparr>),
       (''analytics'', \<lparr>host = ''db.example.com'', port = 5432, database = ''analytics'',
          username = ''reader'', password = ''secret'', conn_type = ''postgresql'', isActive = True,
          conn_schema = Some demo_schema, lastConnected = Some ''2024-01-15T00:00:01.000Z''\<rparr>)]\<rparr>"
  by (simp add: analytics_service_def addConnection_def extractSchema_def saveConfig_def
      fresh_service_def default_config_def demo_params_def deactivate_all_def Let_def)

lemma addConnection_save_failure:
  assumes "success (fst (addConnection probe catalog now True connectionId connectionParams s))"
  shows "success (fst (addConnection probe catalog now False connectionId connectionParams s)) = False"
    and "error_text (fst (addConnection probe catalog now False connectionId connectionParams s))
           = Some ''Could not save database configuration''"
    and "config (snd (addConnection probe catalog now False connectionId connectionParams s))
           = config (snd (addConnection probe catalog now True connectionId connectionParams s))"
    and "prototype (snd (addConnection probe catalog now False connectionId connectionParams s))
           = prototype (snd (addConnection probe catalog now True connectionId connectionParams s))"
    and "object_polluted (snd (addConnection probe catalog now False connectionId connectionParams s))
           = object_polluted (snd (addConnection probe catalog now True connectionId connectionParams s))"
proof -
  from assms obtain sch where p: "probe = Inr True" and c: "catalog = Some sch"
    by (auto simp: addConnection_def extractSchema_def add_failed_def Let_def
        split: sum.splits option.splits if_splits)
  show "success (fst (addConnection probe catalog now False connectionId connectionParams s)) = False"
    by (simp add: p c addConnection_def extractSchema_def saveConfig_def add_failed_def Let_def)
  show "error_text (fst (addConnection probe catalog now False connectionId connectionParams s))
           = Some ''Could not save database configuration''"
    by (simp add: p c addConnection_def extractSchema_def saveConfig_def add_failed_def Let_def)
  show "config (snd (addConnection probe catalog now False connectionId connectionParams s))
           = config (snd (addConnection probe catalog now True connectionId connectionParams s))"
    by (simp add: p c addConnection_def extractSchema_def saveConfig_def Let_def)
  show "prototype (snd (addConnection probe catalog now False connectionId connectionParams s))
           = prototype (snd (addConnection probe catalog now True connectionId connectionParams s))"
    by (simp add: p c addConnection_def extractSchema_def saveConfig_def Let_def)
  show "object_polluted (snd (addConnection probe catalog now False connectionId connectionParams s))
           = object_polluted (snd (addConnection probe catalog now True connectionId connectionParams s))"
    by (simp add: p c addConnection_def extractSchema_def saveConfig_def Let_def)
qed

lemma setActiveConnection_save_failure:
  assumes "fst (setActiveConnection True connectionId s) = Inr True"
  shows "fst (setActiveConnection False connectionId s)
           = Inl (Error ''Could not save database configuration'')"
    and "config (snd (setActiveConnection False connectionId s))
           = config (snd (setActiveConnection True connectionId s))"
    and "prototype (snd (setActiveConnection False connectionId s))
           = prototype (snd (setActiveConnection True connectionId s))"
    and "object_polluted (snd (setActiveConnection False connectionId s))
           = object_polluted (snd (setActiveConnection True connectionId s))"
proof -
  from assms have f: "\<not> falsy_member (connections_member s connectionId)"
    by (auto simp: setActiveConnection_def Let_def split: if_splits)
  from assms have n: "\<And>b. connections_member s connectionId \<noteq> Primitive b"
    by (auto simp: setActiveConnection_def Let_def split: if_splits)
  from f n consider r where "connections_member s connectionId = Own r"
    | "connections_member s connectionId = Object_value"
    by (cases "connections_member s connectionId") (auto simp: falsy_member_def)
  then have "fst (setActiveConnection False connectionId s)
           = Inl (Error ''Could not save database configuration'')
    \<and> config (snd (setActiveConnection False connectionId s))
           = config (snd (setActiveConnection True connectionId s))
    \<and> prototype (snd (setActiveConnection False connectionId s))
           = prototype (snd (setActiveConnection True connectionId s))
    \<and> object_polluted (snd (setActiveConnection False connectionId s))
           = object_polluted (snd (setActiveConnection True connectionId s))"
    by cases (auto simp: setActiveConnection_def saveConfig_def falsy_member_def Let_def
        split: option.splits)
  then show "fst (setActiveConnection False connectionId s)
           = Inl (Error ''Could not save database configuration'')"
    and "config (snd (setActiveConnection False connectionId s))
           = config (snd (setActiveConnection True connectionId s))"
    and "prototype (snd (setActiveConnection False connectionId s))
           = prototype (snd (setActiveConnection True connectionId s))"
    and "object_polluted (snd (setActiveConnection False connectionId s))
           = object_polluted (snd (setActiveConnection True connectionId s))"
    by blast+
qed

lemma removeConnection_save_failure:
  assumes "fst (removeConnection True connectionId s) = Inr True"
  shows "fst (removeConnection False connectionId s)
           = Inl (Error ''Could not save database configuration'')"
    and "config (snd (removeConnection False connectionId s))
           = config (snd (removeConnection True connectionId s))"
    and "prototype (snd (removeConnection False connectionId s))
           = prototype (snd (removeConnection True connectionId s))"
    and "object_polluted (snd (removeConnection False connectionId s))
           = object_polluted (snd (removeConnection True connectionId s))"
proof -
  from assms have g: "(falsy_member (connections_member s connectionId) \<or> connectionId = ''default'') = False"
    by (auto simp: removeConnection_def)
  have "fst (removeConnection False connectionId s)
           = Inl (Error ''Could not save database configuration'')
    \<and> config (snd (removeConnection False connectionId s))
           = config (snd (removeConnection True connectionId s))
    \<and> prototype (snd (removeConnection False connectionId s))
           = prototype (snd (removeConnection True connectionId s))
    \<and> object_polluted (snd (removeConnection False connectionId s))
           = object_polluted (snd (removeConnection True connectionId s))"
  proof (cases "currentConnection (config s) = Some connectionId")
    case True
    with assms g obtain d where
      d: "map_of (AList.delete connectionId (connections (config s))) ''default'' = Some d"
      unfolding removeConnection_def g by (auto simp: Let_def split: option.splits)
    show ?thesis
      unfolding removeConnection_def g using True
      by (simp add: saveConfig_def d Let_def)
  next
    case False
    then show ?thesis
      unfolding removeConnection_def g by (simp add: saveConfig_def Let_def)
  qed
  then show "fst (removeConnection False connectionId s)
           = Inl (Error ''Could not save database configuration'')"
    and "config (snd (removeConnection False connectionId s))
           = config (snd (removeConnection True connectionId s))"
    and "prototype (snd (removeConnection False connectionId s))
           = prototype (snd (removeConnection True connectionId s))"
    and "object_polluted (snd (removeConnection False connectionId s))
           = object_polluted (snd (removeConnection True connectionId s))"
    by blast+
qed

lemma remove_without_member_fails:
  assumes "falsy_member (connections_member s connectionId)"
  shows "removeConnection writable connectionId s = (Inr False, s)"
  using assms by (simp add: removeConnection_def)

lemma no_member_falsy:
  assumes "map_of (connections (config s)) connectionId = None"
    and "connectionId \<notin> set inherited_names"
    and "prototype s = None" and "\<not> object_polluted s"
  shows "falsy_member (connections_member s connectionId)"
  using assms by (simp add: connections_member_def object_prototype_member_def falsy_member_def)

section \<open>The claims\<close>

text \<open>
  C1 (the code departs from it). The claim: the query text that \<open>generateSQLFromQuery\<close>
  returns always begins with \<open>SELECT\<close>, and when the cleaned text of the primary tier does
  not, the fallback tier's output is returned instead. The code cleans the text and returns
  it without testing it: when the service answers \<open>DROP TABLE employees;\<close> the translator
  returns exactly that text, which does not begin with \<open>SELECT\<close> and is not what the fallback
  tier produces, whatever the question, the schema and the sector are.
\<close>

theorem primary_text_returned_unchecked:
  "generateSQLFromQuery (AiText (Some ''DROP TABLE employees;'')) naturalLanguageQuery schema sector
     = Inr ''DROP TABLE employees;''
   \<and> \<not> prefix ''SELECT'' ''DROP TABLE employees;''
   \<and> generateSQLFromQuery (AiText (Some ''DROP TABLE employees;'')) naturalLanguageQuery schema sector
       \<noteq> generateFallbackSQL naturalLanguageQuery schema"
proof -
  have a: "generateSQLFromQuery (AiText (Some ''DROP TABLE employees;'')) naturalLanguageQuery schema sector
     = Inr ''DROP TABLE employees;''"
    by (simp add: generateSQLFromQuery_def trim_def is_space_def fence_def replace_leading_def canonicalize_def Let_def)
  have b: "generateFallbackSQL naturalLanguageQuery schema \<noteq> Inr ''DROP TABLE employees;''"
    by (simp add: generateFallbackSQL_def Let_def split: option.split)
  from a b show ?thesis by simp
qed

text \<open>
  C2. In every reachable state of the service the registry has at most one active record and
  a record \<open>default\<close>, and so has the registry after \<open>addConnection\<close>, \<open>setActiveConnection\<close>
  or \<open>removeConnection\<close>, whatever the probe, the catalog and the file system answer.
\<close>

theorem registry_invariant_reachable:
  assumes "reachable s"
  shows "registry_inv (config s)
    \<and> registry_inv (config (snd (addConnection probe catalog now writable connectionId connectionParams s)))
    \<and> registry_inv (config (snd (setActiveConnection writable connectionId s)))
    \<and> registry_inv (config (snd (removeConnection writable connectionId s)))"
  using assms
  by (intro conjI reachable_inv reachable.add reachable.activate reachable.remove)

theorem registry_invariant_reachable_witness:
  "reachable fresh_service
   \<and> registry_inv (config fresh_service)
   \<and> registry_inv (config (snd (addConnection (Inr True) (Some \<lparr>tables = Some [], extractedAt = ''t0''\<rparr>)
        ''t1'' True ''analytics'' demo_params fresh_service)))
   \<and> active_count (config (snd (addConnection (Inr True) (Some \<lparr>tables = Some [], extractedAt = ''t0''\<rparr>)
        ''t1'' True ''analytics'' demo_params fresh_service))) = 1
   \<and> registry_inv (config (snd (setActiveConnection True ''analytics'' fresh_service)))
   \<and> registry_inv (config (snd (removeConnection True ''analytics'' fresh_service)))"
proof -
  note r = fresh_service_reachable
  note t = registry_invariant_reachable [OF r, where probe = "Inr True"
      and catalog = "Some \<lparr>tables = Some [], extractedAt = ''t0''\<rparr>" and now = "''t1''"
      and writable = True and connectionId = "''analytics''" and connectionParams = demo_params]
  have c: "active_count (config (snd (addConnection (Inr True) (Some \<lparr>tables = Some [], extractedAt = ''t0''\<rparr>)
        ''t1'' True ''analytics'' demo_params fresh_service))) = 1"
    by (simp add: addConnection_def extractSchema_def saveConfig_def fresh_service_def default_config_def
        deactivate_all_def active_count_def Let_def)
  from r t c show ?thesis by simp
qed

text \<open>
  C3 (as amended). For an operation that succeeds when the configuration file can be written:
  when the file cannot be written, the operation reports the error of \<open>saveConfig\<close>
  (\<open>addConnection\<close> in its result, \<open>setActiveConnection\<close> and \<open>removeConnection\<close> by the
  exception), and it leaves in memory exactly what the successful operation leaves there.
\<close>

theorem save_failure_keeps_mutation:
  "(success (fst (addConnection probe catalog now True connectionId connectionParams s)) \<longrightarrow>
      success (fst (addConnection probe catalog now False connectionId connectionParams s)) = False
      \<and> error_text (fst (addConnection probe catalog now False connectionId connectionParams s))
          = Some ''Could not save database configuration''
      \<and> config (snd (addConnection probe catalog now False connectionId connectionParams s))
          = config (snd (addConnection probe catalog now True connectionId connectionParams s))
      \<and> prototype (snd (addConnection probe catalog now False connectionId connectionParams s))
          = prototype (snd (addConnection probe catalog now True connectionId connectionParams s))
      \<and> object_polluted (snd (addConnection probe catalog now False connectionId connectionParams s))
          = object_polluted (snd (addConnection probe catalog now True connectionId connectionParams s)))
   \<and> (fst (setActiveConnection True connectionId s) = Inr True \<longrightarrow>
        fst (setActiveConnection False connectionId s)
          = Inl (Error ''Could not save database configuration'')
        \<and> config (snd (setActiveConnection False connectionId s))
            = config (snd (setActiveConnection True connectionId s))
        \<and> prototype (snd (setActiveConnection False connectionId s))
            = prototype (snd (setActiveConnection True connectionId s))
        \<and> object_polluted (snd (setActiveConnection False connectionId s))
            = object_polluted (snd (setActiveConnection True connectionId s)))
   \<and> (fst (removeConnection True connectionId s) = Inr True \<longrightarrow>
        fst (removeConnection False connectionId s)
          = Inl (Error ''Could not save database configuration'')
        \<and> config (snd (removeConnection False connectionId s))
            = config (snd (removeConnection True connectionId s))
        \<and> prototype (snd (removeConnection False connectionId s))
            = prototype (snd (removeConnection True connectionId s))
        \<and> object_polluted (snd (removeConnection False connectionId s))
            = object_polluted (snd (removeConnection True connectionId s)))"
  by (intro conjI impI addConnection_save_failure setActiveConnection_save_failure
      removeConnection_save_failure)

theorem save_failure_keeps_mutation_witness:
  "success (fst (addConnection (Inr True) (Some demo_schema) ''2024-01-15T00:00:02.000Z'' True
       ''analytics'' demo_params analytics_service))
   \<and> fst (setActiveConnection True ''analytics'' analytics_service) = Inr True
   \<and> fst (removeConnection True ''analytics'' analytics_service) = Inr True
   \<and> error_text (fst (addConnection (Inr True) (Some demo_schema) ''2024-01-15T00:00:02.000Z'' False
       ''analytics'' demo_params analytics_service)) = Some ''Could not save database configuration''
   \<and> fst (setActiveConnection False ''analytics'' analytics_service)
       = Inl (Error ''Could not save database configuration'')
   \<and> fst (removeConnection False ''analytics'' analytics_service)
       = Inl (Error ''Could not save database configuration'')
   \<and> currentConnection (config (snd (removeConnection False ''analytics'' analytics_service)))
       = Some ''default''
   \<and> map fst (connections (config (snd (removeConnection False ''analytics'' analytics_service))))
       = [''default'']"
proof -
  have m: "connections_member analytics_service ''analytics'' = Own \<lparr>host = ''db.example.com'',
          port = 5432, database = ''analytics'',
          username = ''reader'', password = ''secret'', conn_type = ''postgresql'', isActive = True,
          conn_schema = Some demo_schema, lastConnected = Some ''2024-01-15T00:00:01.000Z''\<rparr>"
    by (simp add: connections_member_def analytics_service_config)
  have h1: "success (fst (addConnection (Inr True) (Some demo_schema) ''2024-01-15T00:00:02.000Z'' True
       ''analytics'' demo_params analytics_service))"
    by (simp add: addConnection_def extractSchema_def saveConfig_def Let_def)
  have h2: "fst (setActiveConnection True ''analytics'' analytics_service) = Inr True"
    by (simp add: setActiveConnection_def saveConfig_def m falsy_member_def Let_def)
  have k: "currentConnection (config (snd (removeConnection True ''analytics'' analytics_service))) = Some ''default''"
    and l: "map fst (connections (config (snd (removeConnection True ''analytics'' analytics_service)))) = [''default'']"
    and h3: "fst (removeConnection True ''analytics'' analytics_service) = Inr True"
    by (simp_all add: removeConnection_def saveConfig_def m falsy_member_def
        analytics_service_config Let_def)
  note t = save_failure_keeps_mutation [where s = analytics_service and connectionId = "''analytics''"
      and probe = "Inr True" and catalog = "Some demo_schema" and now = "''2024-01-15T00:00:02.000Z''"
      and connectionParams = demo_params]
  from t h1 have a: "error_text (fst (addConnection (Inr True) (Some demo_schema) ''2024-01-15T00:00:02.000Z'' False
       ''analytics'' demo_params analytics_service)) = Some ''Could not save database configuration''"
    by blast
  from t h2 have b: "fst (setActiveConnection False ''analytics'' analytics_service)
       = Inl (Error ''Could not save database configuration'')"
    by blast
  from t h3 have r: "fst (removeConnection False ''analytics'' analytics_service)
       = Inl (Error ''Could not save database configuration'')"
    and c: "config (snd (removeConnection False ''analytics'' analytics_service))
            = config (snd (removeConnection True ''analytics'' analytics_service))"
    by blast+
  from h1 h2 h3 a b r c k l show ?thesis by (simp only: simp_thms)
qed

text \<open>
  The claim as first stated, that the configuration in memory is the one before the
  operation, fails for \<open>setActiveConnection\<close> on the fresh service.
\<close>

theorem save_failure_not_rolled_back:
  "fst (setActiveConnection False ''default'' fresh_service) = Inl (Error ''Could not save database configuration'')
   \<and> config (snd (setActiveConnection False ''default'' fresh_service)) \<noteq> config fresh_service"
proof -
  have m: "connections_member fresh_service ''default'' = Own \<lparr>
       host = ''localhost'', port = 5432, database = ''postgres'', username = ''postgres'',
       password = [], conn_type = ''postgresql'', isActive = False, conn_schema = None,
       lastConnected = None\<rparr>"
    by (simp add: connections_member_def fresh_service_def default_config_def)
  have "currentConnection (config (snd (setActiveConnection False ''default'' fresh_service))) = Some ''default''"
    by (simp add: setActiveConnection_def saveConfig_def m falsy_member_def Let_def)
  moreover have "currentConnection (config fresh_service) = None"
    by (simp add: fresh_service_def default_config_def)
  ultimately have "config (snd (setActiveConnection False ''default'' fresh_service)) \<noteq> config fresh_service"
    by auto
  moreover have "fst (setActiveConnection False ''default'' fresh_service) = Inl (Error ''Could not save database configuration'')"
    by (simp add: setActiveConnection_def saveConfig_def m falsy_member_def Let_def)
  ultimately show ?thesis by simp
qed

text \<open>
  C4. When the liveness probe answers no, \<open>addConnection\<close> returns the connection error and
  the state of the service is the state before: the same records with the same flags, the
  same current connection, the same file.
\<close>

theorem failed_probe_leaves_registry:
  "addConnection (Inr False) catalog now writable connectionId connectionParams s
     = (add_failed ''Failed to connect to database with provided credentials'', s)
   \<and> success (fst (addConnection (Inr False) catalog now writable connectionId connectionParams s)) = False
   \<and> config (snd (addConnection (Inr False) catalog now writable connectionId connectionParams s)) = config s
   \<and> stored (snd (addConnection (Inr False) catalog now writable connectionId connectionParams s)) = stored s"
  by (simp add: addConnection_def add_failed_def)

text \<open>
  C5. \<open>generateFallbackSQL\<close> fails exactly when the schema has no table, and then with the
  error \<open>No tables available for querying\<close>. For a schema with a table and a question for
  which no rule fires (no rule has both its keywords in the question and its table in the
  schema), it returns the default query: the first five column names at most of the first
  table, from that table, with \<open>LIMIT 10\<close>.
\<close>

theorem fallback_fails_iff_no_tables:
  "(generateFallbackSQL query schema = Inl (Error ''No tables available for querying'')
      \<longleftrightarrow> keys_or_empty (tables schema) = [])
   \<and> (isl (generateFallbackSQL query schema) \<longleftrightarrow> keys_or_empty (tables schema) = [])
   \<and> (keys_or_empty (tables schema) \<noteq> [] \<and> \<not> rule_fires query schema \<longrightarrow>
        (\<exists>firstTable t ts cols.
           tables schema = Some ((firstTable, t) # ts)
           \<and> cols = take 5 (keys_or_empty (tbl_columns t))
           \<and> length cols \<le> 5
           \<and> generateFallbackSQL query schema =
               Inr (''SELECT '' @ join '', '' cols @ '' FROM '' @ firstTable @ '' LIMIT 10;'')))"
proof (cases "keys_or_empty (tables schema) = []")
  case True
  then show ?thesis by (simp add: generateFallbackSQL_def Let_def)
next
  case False
  then obtain t ts where
    s: "tables schema = Some ((hd (keys_or_empty (tables schema)), t) # ts)"
    by (rule first_table_found)
  define firstTable where "firstTable = hd (keys_or_empty (tables schema))"
  have s': "tables schema = Some ((firstTable, t) # ts)"
    using s by (simp add: firstTable_def)
  have r: "isl (generateFallbackSQL query schema) = False"
    by (simp add: generateFallbackSQL_def Let_def keys_or_empty_def s')
  have d: "\<not> rule_fires query schema \<Longrightarrow>
    generateFallbackSQL query schema =
      Inr (''SELECT '' @ join '', '' (take 5 (keys_or_empty (tbl_columns t))) @ '' FROM '' @ firstTable @ '' LIMIT 10;'')"
  proof -
    assume nk: "\<not> rule_fires query schema"
    have c1: "(includes_str (toLowerCase query) ''total'' \<and> includes_str (toLowerCase query) ''loan''
                 \<and> ''loans'' \<in> set (keys_or_empty (tables schema))) = False"
      and c2: "(includes_str (toLowerCase query) ''customer'' \<and> includes_str (toLowerCase query) ''count''
                 \<and> ''customers'' \<in> set (keys_or_empty (tables schema))) = False"
      and c3: "((includes_str (toLowerCase query) ''payment'' \<or> includes_str (toLowerCase query) ''transaction'')
                 \<and> ''payments'' \<in> set (keys_or_empty (tables schema))) = False"
      and c4: "(includes_str (toLowerCase query) ''loan'' \<and> includes_str (toLowerCase query) ''type''
                 \<and> ''loans'' \<in> set (keys_or_empty (tables schema))) = False"
      using nk unfolding rule_fires_def Let_def by blast+
    have e: "(length (keys_or_empty (tables schema)) = 0) = False"
      using False by simp
    have "generateFallbackSQL query schema =
            (let firstTable = hd (keys_or_empty (tables schema))
             in case map_of (case tables schema of None \<Rightarrow> [] | Some ts \<Rightarrow> ts) firstTable of
                 None \<Rightarrow> Inl TypeError
               | Some t \<Rightarrow>
                   (let cols = keys_or_empty (tbl_columns t);
                        limitedColumns = join '', '' (take 5 cols)
                    in Inr (''SELECT '' @ limitedColumns @ '' FROM '' @ firstTable @ '' LIMIT 10;'')))"
      unfolding generateFallbackSQL_def Let_def by (simp only: c1 c2 c3 c4 e if_False)
    also have "\<dots> = Inr (''SELECT '' @ join '', '' (take 5 (keys_or_empty (tbl_columns t))) @ '' FROM '' @ firstTable @ '' LIMIT 10;'')"
      by (simp add: s' keys_or_empty_def Let_def)
    finally show ?thesis .
  qed
  have n: "generateFallbackSQL query schema \<noteq> Inl (Error ''No tables available for querying'')"
    using r by (cases "generateFallbackSQL query schema") auto
  show ?thesis using False r n d s' by auto
qed


theorem fallback_fails_iff_no_tables_witness:
  "keys_or_empty (tables demo_schema) \<noteq> []
   \<and> \<not> rule_fires ''What is the daily transaction volume?'' demo_schema
   \<and> generateFallbackSQL ''What is the daily transaction volume?'' demo_schema =
       Inr ''SELECT id, name, department, salary, hire_date FROM employees LIMIT 10;''
   \<and> generateFallbackSQL ''What is the daily transaction volume?'' \<lparr>tables = Some [], extractedAt = []\<rparr> =
       Inl (Error ''No tables available for querying'')"
proof -
  have a: "keys_or_empty (tables demo_schema) \<noteq> []"
    by (simp add: demo_schema_def keys_or_empty_def)
  have b: "\<not> rule_fires ''What is the daily transaction volume?'' demo_schema"
    by code_simp
  have e: "keys_or_empty (tables \<lparr>tables = Some [], extractedAt = []\<rparr>) = []"
    by (simp add: keys_or_empty_def)
  note t = fallback_fails_iff_no_tables [of "''What is the daily transaction volume?''"]
  from t [of demo_schema] a b
  have "\<exists>firstTable t ts cols.
           tables demo_schema = Some ((firstTable, t) # ts)
           \<and> cols = take 5 (keys_or_empty (tbl_columns t))
           \<and> length cols \<le> 5
           \<and> generateFallbackSQL ''What is the daily transaction volume?'' demo_schema =
               Inr (''SELECT '' @ join '', '' cols @ '' FROM '' @ firstTable @ '' LIMIT 10;'')"
    by blast
  then have c: "generateFallbackSQL ''What is the daily transaction volume?'' demo_schema =
       Inr ''SELECT id, name, department, salary, hire_date FROM employees LIMIT 10;''"
    by (auto simp: demo_schema_def keys_or_empty_def)
  from t [of "\<lparr>tables = Some [], extractedAt = []\<rparr>"] e
  have d: "generateFallbackSQL ''What is the daily transaction volume?'' \<lparr>tables = Some [], extractedAt = []\<rparr> =
       Inl (Error ''No tables available for querying'')"
    by blast
  from a b c d show ?thesis by (intro conjI)
qed

text \<open>
  C6. The fallback tier is a function of its two arguments, and of less: two invocations
  return the same result whenever the questions agree in lower case and the schemas have the
  same tables. In particular the same question and schema give the same query text, and the
  time stamp that a schema carries has no influence.
\<close>

theorem fallback_deterministic:
  assumes "toLowerCase q1 = toLowerCase q2" and "tables s1 = tables s2"
  shows "generateFallbackSQL q1 s1 = generateFallbackSQL q2 s2"
  by (simp only: generateFallbackSQL_def assms)

theorem fallback_deterministic_witness:
  "generateFallbackSQL ''What is the daily transaction volume?''  demo_schema
     = generateFallbackSQL ''What is the daily transaction volume?'' demo_schema
   \<and> generateFallbackSQL ''what is the DAILY transaction volume?'' (demo_schema\<lparr>extractedAt := ''2025-06-30T12:00:00.000Z''\<rparr>)
     = generateFallbackSQL ''What is the daily transaction volume?'' demo_schema"
proof -
  have l: "toLowerCase ''what is the DAILY transaction volume?'' = toLowerCase ''What is the daily transaction volume?''"
    by code_simp
  have t: "tables (demo_schema\<lparr>extractedAt := ''2025-06-30T12:00:00.000Z''\<rparr>) = tables demo_schema"
    by simp
  from fallback_deterministic [OF refl refl] fallback_deterministic [OF l t]
  show ?thesis by (intro conjI)
qed

text \<open>
  C7 (as amended). From an array of objects of the primary tier, \<open>generateKPISuggestions\<close>
  returns the suggestions that have a non-empty id, name, description, query template and
  category, in order, cut to 8 after the filter. For a sector tag that is no name of a member
  every object inherits, it returns a list of at most 8 suggestions, each with these five
  members; and when the primary tier fails (the call or the parse throws, the response has
  no text, or the array holds a \<open>null\<close>) that list is the sector's fixed list, the finance
  list for an unknown sector: 3 suggestions with pairwise distinct ids.
\<close>

theorem kpi_suggestions_shape:
  "generateKPISuggestions polluted (KpiArray (map JObject xs)) schema sector
       = Own (take 8 (filter suggestion_valid xs))
   \<and> (sector \<notin> set inherited_names \<and> \<not> (sector = ''isActive'' \<and> polluted) \<longrightarrow>
        (\<exists>ys. generateKPISuggestions polluted outcome schema sector = Own ys
              \<and> length ys \<le> 8 \<and> list_all suggestion_valid ys)
        \<and> (outcome = KpiThrows \<or> outcome = KpiNoText
             \<or> (\<exists>items. outcome = KpiArray items \<and> JNull \<in> set items) \<longrightarrow>
            (\<exists>ys. generateKPISuggestions polluted outcome schema sector = Own ys
                  \<and> ys = (case map_of fallbackSuggestions sector of
                            Some suggestions \<Rightarrow> suggestions | None \<Rightarrow> fallback_finance)
                  \<and> length ys = 3 \<and> distinct (map kpi_id ys))))"
proof (intro conjI impI)
  show "generateKPISuggestions polluted (KpiArray (map JObject xs)) schema sector
       = Own (take 8 (filter suggestion_valid xs))"
    by (simp add: generateKPISuggestions_def filter_valid_objects)
next
  assume "sector \<notin> set inherited_names \<and> \<not> (sector = ''isActive'' \<and> polluted)"
  then have f: "getFallbackSuggestions polluted sector =
           Own (case map_of fallbackSuggestions sector of
                  Some suggestions \<Rightarrow> suggestions | None \<Rightarrow> fallback_finance)"
    by (intro getFallbackSuggestions_plain) blast+
  show "\<exists>ys. generateKPISuggestions polluted outcome schema sector = Own ys
              \<and> length ys \<le> 8 \<and> list_all suggestion_valid ys"
  proof (cases outcome)
    case (KpiArray items)
    show ?thesis
    proof (cases "filter_valid items")
      case None
      with KpiArray show ?thesis
        by (simp add: generateKPISuggestions_def f fallback_table_facts)
    next
      case (Some kept)
      then have "list_all suggestion_valid kept" by (rule filter_valid_all)
      then have "list_all suggestion_valid (take 8 kept)"
        by (auto simp: list_all_iff dest: in_set_takeD)
      with KpiArray Some show ?thesis
        by (simp add: generateKPISuggestions_def)
    qed
  qed (simp_all add: generateKPISuggestions_def f fallback_table_facts)
  assume "outcome = KpiThrows \<or> outcome = KpiNoText
             \<or> (\<exists>items. outcome = KpiArray items \<and> JNull \<in> set items)"
  then have "generateKPISuggestions polluted outcome schema sector = getFallbackSuggestions polluted sector"
    by (auto simp: generateKPISuggestions_def filter_valid_null)
  then show "\<exists>ys. generateKPISuggestions polluted outcome schema sector = Own ys
                  \<and> ys = (case map_of fallbackSuggestions sector of
                            Some suggestions \<Rightarrow> suggestions | None \<Rightarrow> fallback_finance)
                  \<and> length ys = 3 \<and> distinct (map kpi_id ys)"
    by (simp add: f fallback_table_facts)
qed

theorem kpi_suggestions_shape_witness:
  "''ithr'' \<notin> set inherited_names
   \<and> generateKPISuggestions False KpiThrows demo_schema ''ithr'' = Own fallback_ithr
   \<and> length fallback_ithr = 3
   \<and> generateKPISuggestions False (KpiArray (map JObject [suggestion ''a'' ''A'' ''d'' ''q'' ''c'',
         (suggestion ''b'' ''B'' ''d'' ''q'' ''c'')\<lparr>category := None\<rparr>])) demo_schema ''ithr''
       = Own [suggestion ''a'' ''A'' ''d'' ''q'' ''c'']"
proof -
  have h1: "''ithr'' \<notin> set inherited_names"
    by (simp add: inherited_names_def)
  have h2: "\<not> (''ithr'' = ''isActive'' \<and> False)"
    by simp
  have h3: "KpiThrows = KpiThrows \<or> KpiThrows = KpiNoText
             \<or> (\<exists>items. KpiThrows = KpiArray items \<and> JNull \<in> set items)"
    by simp
  note t = kpi_suggestions_shape [where polluted = False and outcome = KpiThrows
      and schema = demo_schema and sector = "''ithr''"
      and xs = "[suggestion ''a'' ''A'' ''d'' ''q'' ''c'', (suggestion ''b'' ''B'' ''d'' ''q'' ''c'')\<lparr>category := None\<rparr>]"]
  from t h1 h2 h3 have "\<exists>ys. generateKPISuggestions False KpiThrows demo_schema ''ithr'' = Own ys
                  \<and> ys = (case map_of fallbackSuggestions ''ithr'' of
                            Some suggestions \<Rightarrow> suggestions | None \<Rightarrow> fallback_finance)
                  \<and> length ys = 3 \<and> distinct (map kpi_id ys)"
    by blast
  then have f: "generateKPISuggestions False KpiThrows demo_schema ''ithr'' = Own fallback_ithr"
    and n: "length fallback_ithr = 3"
    by (auto simp: fallbackSuggestions_def)
  from t have "generateKPISuggestions False (KpiArray (map JObject [suggestion ''a'' ''A'' ''d'' ''q'' ''c'',
         (suggestion ''b'' ''B'' ''d'' ''q'' ''c'')\<lparr>category := None\<rparr>])) demo_schema ''ithr''
       = Own (take 8 (filter suggestion_valid [suggestion ''a'' ''A'' ''d'' ''q'' ''c'',
         (suggestion ''b'' ''B'' ''d'' ''q'' ''c'')\<lparr>category := None\<rparr>]))"
    by blast
  also have "\<dots> = Own [suggestion ''a'' ''A'' ''d'' ''q'' ''c'']"
    by (simp add: suggestion_def suggestion_valid_def truthy_def)
  finally have k: "generateKPISuggestions False (KpiArray (map JObject [suggestion ''a'' ''A'' ''d'' ''q'' ''c'',
         (suggestion ''b'' ''B'' ''d'' ''q'' ''c'')\<lparr>category := None\<rparr>])) demo_schema ''ithr''
       = Own [suggestion ''a'' ''A'' ''d'' ''q'' ''c'']" .
  from h1 f n k show ?thesis by (intro conjI)
qed

text \<open>
  The claim as first stated fails in each of its parts: the fallback list of the sector
  \<open>bank\<close> has 3 suggestions, not 6 to 8; two suggestions of the primary tier with the same id
  are both returned; and for the sector tag \<open>constructor\<close> the value returned is no list.
\<close>

theorem kpi_claim_fails:
  "\<not> (\<exists>ys. generateKPISuggestions False KpiThrows demo_schema ''bank'' = Own ys
            \<and> 6 \<le> length ys \<and> length ys \<le> 8)
   \<and> \<not> (\<exists>ys. generateKPISuggestions False
              (KpiArray [JObject (suggestion ''a'' ''A'' ''d'' ''q'' ''c''),
                         JObject (suggestion ''a'' ''A'' ''d'' ''q'' ''c'')]) demo_schema ''bank'' = Own ys
            \<and> distinct (map kpi_id ys))
   \<and> \<not> (\<exists>ys. generateKPISuggestions False KpiThrows demo_schema ''constructor'' = Own ys)"
proof -
  have a: "generateKPISuggestions False KpiThrows demo_schema ''bank'' = Own fallback_bank"
    by (simp add: generateKPISuggestions_def getFallbackSuggestions_def fallbackSuggestions_def
        falsy_member_def)
  have b: "generateKPISuggestions False
              (KpiArray [JObject (suggestion ''a'' ''A'' ''d'' ''q'' ''c''),
                         JObject (suggestion ''a'' ''A'' ''d'' ''q'' ''c'')]) demo_schema ''bank''
           = Own [suggestion ''a'' ''A'' ''d'' ''q'' ''c'', suggestion ''a'' ''A'' ''d'' ''q'' ''c'']"
    by (simp add: generateKPISuggestions_def suggestion_def suggestion_valid_def truthy_def)
  have c: "generateKPISuggestions False KpiThrows demo_schema ''constructor'' = Object_value"
    by (simp add: generateKPISuggestions_def getFallbackSuggestions_def fallbackSuggestions_def
        object_prototype_member_def inherited_names_def falsy_member_def)
  show ?thesis
    unfolding a b c by (simp add: fallback_lists)
qed

text \<open>
  C8. For every question and sector, the result envelope of \<open>generateMockResults\<close> has
  \<open>row_count\<close> equal to the number of rows of \<open>table_data\<close>, and every key of every point of
  the chart series is one of \<open>columns\<close>.
\<close>

theorem mock_envelope_invariant:
  "row_count (generateMockResults query sector) = length (table_data (generateMockResults query sector))
   \<and> (\<forall>point \<in> set (data (chart (generateMockResults query sector))).
        \<forall>k \<in> set (map fst point). k \<in> set (columns (generateMockResults query sector)))"
  by (simp add: generateMockResults_def salary_results_def transaction_results_def
      department_results_def default_results_def Let_def)

theorem mock_envelope_invariant_witness:
  "row_count (generateMockResults ''What is the daily transaction volume?'' ''bank'') = 5
   \<and> [(''date'', Str ''2024-01-15''), (''total_amount'', Num 125000)]
        \<in> set (data (chart (generateMockResults ''What is the daily transaction volume?'' ''bank'')))
   \<and> ''total_amount'' \<in> set (map fst [(''date'', Str ''2024-01-15''), (''total_amount'', Num 125000)])
   \<and> ''total_amount'' \<in> set (columns (generateMockResults ''What is the daily transaction volume?'' ''bank''))"
proof -
  have r: "generateMockResults ''What is the daily transaction volume?'' ''bank'' = transaction_results"
    by code_simp
  have p: "[(''date'', Str ''2024-01-15''), (''total_amount'', Num 125000)]
             \<in> set (data (chart (generateMockResults ''What is the daily transaction volume?'' ''bank'')))"
    unfolding r by (simp add: transaction_results_def)
  have n: "length (table_data (generateMockResults ''What is the daily transaction volume?'' ''bank'')) = 5"
    unfolding r by (simp add: transaction_results_def)
  have m: "''total_amount'' \<in> set (map fst [(''date'', Str ''2024-01-15''), (''total_amount'', Num 125000)])"
    by simp
  note inv = mock_envelope_invariant [of "''What is the daily transaction volume?''" "''bank''"]
  from inv n have c: "row_count (generateMockResults ''What is the daily transaction volume?'' ''bank'') = 5"
    by (elim conjE) (rule trans)
  from inv p m have k: "''total_amount'' \<in> set (columns (generateMockResults ''What is the daily transaction volume?'' ''bank''))"
    by blast
  from c p m k show ?thesis by (intro conjI)
qed

text \<open>
  C9 (as amended). For every question that contains \<open>salary\<close>, the demonstration query route
  answers with the aggregate over \<open>employees\<close> grouped by department (\<open>generateMockSQL\<close>) and
  with the envelope of the five departments, whose chart is a bar chart of the average salary
  by department (\<open>generateMockResults\<close>). Neither function consults a schema.
\<close>

theorem salary_question_grouped_bar:
  assumes "includes_str query ''salary''"
  shows "generateMockSQL query sector =
           ''SELECT department, AVG(salary) as avg_salary, COUNT(*) as employee_count FROM employees GROUP BY department ORDER BY avg_salary DESC LIMIT 10;''
         \<and> includes_str (generateMockSQL query sector) ''GROUP BY department''
         \<and> includes_str (generateMockSQL query sector) ''AVG(salary)''
         \<and> chart_type (chart (generateMockResults query sector)) = bar
         \<and> xAxis (chart (generateMockResults query sector)) = ''department''
         \<and> yAxis (chart (generateMockResults query sector)) = ''avg_salary''
         \<and> data (chart (generateMockResults query sector)) = [
              [(''department'', Str ''Engineering''), (''avg_salary'', Num 95000)],
              [(''department'', Str ''Sales''), (''avg_salary'', Num 75000)],
              [(''department'', Str ''Marketing''), (''avg_salary'', Num 68000)],
              [(''department'', Str ''HR''), (''avg_salary'', Num 62000)],
              [(''department'', Str ''Finance''), (''avg_salary'', Num 78000)]]
         \<and> columns (generateMockResults query sector) = [''department'', ''avg_salary'', ''employee_count'']
         \<and> row_count (generateMockResults query sector) = 5"
proof -
  have l: "includes_str (toLowerCase query) ''salary''"
    using assms toLowerCase_salary by (rule includes_str_toLowerCase)
  have q: "generateMockSQL query sector =
           ''SELECT department, AVG(salary) as avg_salary, COUNT(*) as employee_count FROM employees GROUP BY department ORDER BY avg_salary DESC LIMIT 10;''"
    using l by (simp add: generateMockSQL_def Let_def)
  have g: "includes_str ''SELECT department, AVG(salary) as avg_salary, COUNT(*) as employee_count FROM employees GROUP BY department ORDER BY avg_salary DESC LIMIT 10;'' ''GROUP BY department''"
    by code_simp
  have a: "includes_str ''SELECT department, AVG(salary) as avg_salary, COUNT(*) as employee_count FROM employees GROUP BY department ORDER BY avg_salary DESC LIMIT 10;'' ''AVG(salary)''"
    by code_simp
  have r: "generateMockResults query sector = salary_results"
    using l by (simp add: generateMockResults_def Let_def)
  show ?thesis
    unfolding r using q g a by (simp add: salary_results_def)
qed

theorem salary_question_grouped_bar_witness:
  "includes_str ''What is the average salary by job title?'' ''salary''
   \<and> includes_str (generateMockSQL ''What is the average salary by job title?'' ''ithr'') ''GROUP BY department''
   \<and> chart_type (chart (generateMockResults ''What is the average salary by job title?'' ''ithr'')) = bar
   \<and> row_count (generateMockResults ''What is the average salary by job title?'' ''ithr'') = 5"
proof -
  have h: "includes_str ''What is the average salary by job title?'' ''salary''"
    by code_simp
  from salary_question_grouped_bar [OF h, of "''ithr''"] h show ?thesis by simp
qed

text \<open>
  The claim as first stated, about the fallback tier of the translator, fails: on the session
  schema, which has a table \<open>employees\<close>, \<open>generateFallbackSQL\<close> answers a question about
  salary with its default query, in which nothing is grouped.
\<close>

theorem fallback_tier_salary_not_grouped:
  "includes_str ''What is the average salary by job title?'' ''salary''
   \<and> ''employees'' \<in> set (keys_or_empty (tables demo_schema))
   \<and> generateFallbackSQL ''What is the average salary by job title?'' demo_schema
       = Inr ''SELECT id, name, department, salary, hire_date FROM employees LIMIT 10;''
   \<and> \<not> (\<exists>q. generateFallbackSQL ''What is the average salary by job title?'' demo_schema = Inr q
            \<and> includes_str q ''GROUP BY department'')"
proof -
  have a: "includes_str ''What is the average salary by job title?'' ''salary''"
    by code_simp
  have b: "''employees'' \<in> set (keys_or_empty (tables demo_schema))"
    by (simp add: demo_schema_def keys_or_empty_def)
  have c: "generateFallbackSQL ''What is the average salary by job title?'' demo_schema
       = Inr ''SELECT id, name, department, salary, hire_date FROM employees LIMIT 10;''"
    by code_simp
  have d: "\<not> includes_str ''SELECT id, name, department, salary, hire_date FROM employees LIMIT 10;'' ''GROUP BY department''"
    by code_simp
  from a b c d show ?thesis by simp
qed

text \<open>
  C10 (the code departs from it). The claim: for a connection id that has no record,
  \<open>removeConnection\<close> returns \<open>false\<close>, as it does for \<open>default\<close>, and changes nothing. The guard
  reads \<open>connections[connectionId]\<close>, which finds inherited members too: on the fresh service
  the id \<open>constructor\<close> has no record, yet \<open>removeConnection\<close> passes the guard, saves and
  returns \<open>true\<close>, and throws when the file cannot be written. An id that names no member at
  all, such as \<open>analytics\<close> there, gets \<open>false\<close>, as \<open>default\<close> does.
\<close>

theorem remove_inherited_name_succeeds:
  "map_of (connections (config fresh_service)) ''constructor'' = None
   \<and> removeConnection True ''constructor'' fresh_service = (Inr True, fresh_service)
   \<and> removeConnection False ''constructor'' fresh_service
       = (Inl (Error ''Could not save database configuration''), fresh_service)
   \<and> removeConnection True ''default'' fresh_service = (Inr False, fresh_service)
   \<and> removeConnection True ''analytics'' fresh_service = (Inr False, fresh_service)"
proof -
  have a: "map_of (connections (config fresh_service)) ''constructor'' = None"
    by (simp add: fresh_service_def default_config_def)
  have m: "connections_member fresh_service ''constructor'' = Object_value"
    by (simp add: connections_member_def object_prototype_member_def inherited_names_def
        fresh_service_def default_config_def)
  have n: "connections_member fresh_service ''analytics'' = Undefined"
    by (simp add: connections_member_def object_prototype_member_def inherited_names_def
        fresh_service_def default_config_def)
  have c: "currentConnection (config fresh_service) \<noteq> Some ''constructor''"
    and d: "AList.delete ''constructor'' (connections (config fresh_service)) = connections (config fresh_service)"
    by (simp_all add: fresh_service_def default_config_def)
  have e: "fresh_service\<lparr>config := (config fresh_service)\<lparr>connections := connections (config fresh_service)\<rparr>\<rparr> = fresh_service"
    by simp
  have s: "fresh_service\<lparr>stored := Some (config fresh_service)\<rparr> = fresh_service"
    by (simp add: fresh_service_def)
  have b: "removeConnection True ''constructor'' fresh_service = (Inr True, fresh_service)"
    by (simp add: removeConnection_def m falsy_member_def c d e s saveConfig_def Let_def)
  have f: "removeConnection False ''constructor'' fresh_service
       = (Inl (Error ''Could not save database configuration''), fresh_service)"
    by (simp add: removeConnection_def m falsy_member_def c d e saveConfig_def Let_def)
  have g: "removeConnection True ''default'' fresh_service = (Inr False, fresh_service)"
    by (simp add: removeConnection_def)
  have h: "removeConnection True ''analytics'' fresh_service = (Inr False, fresh_service)"
    by (simp add: removeConnection_def n falsy_member_def)
  from a b f g h show ?thesis by (intro conjI)
qed

end
